theory Spec2Isabelle
  imports Complex_Main "HOL-Library.AList"
begin

section \<open>JavaScript values\<close>

text \<open>
  The gateway (\<^verbatim>\<open>src/DOCKER_EXAMPLE/src/index.js\<close>) handles JSON: request bodies,
  the bodies it sends to the search engine, the engine's answers and the thrown errors are
  all JavaScript values. A number is a double; the model keeps the not-a-number value and
  the two infinities apart and reads every finite double as the rational it denotes (the
  sign of zero and rounding are left out: the program only compares numbers and takes
  minima, which are exact). A string is a list of code units below 256. An object is the
  list of its own properties in insertion order.
\<close>

datatype jsnum = NaN | PInf | NInf | Fin rat

datatype jsval =
    JUndefined
  | JNull
  | JBool bool
  | JNum jsnum
  | JStr string
  | JArr "jsval list"
  | JObj "(string \<times> jsval) list"
  | JFun string

text \<open>\<^verbatim>\<open>if (v)\<close>, \<^verbatim>\<open>!v\<close>, \<^verbatim>\<open>a || b\<close>, \<^verbatim>\<open>c ? a : b\<close>: ToBoolean.\<close>

fun truthy :: "jsval \<Rightarrow> bool" where
  "truthy JUndefined = False"
| "truthy JNull = False"
| "truthy (JBool b) = b"
| "truthy (JNum n) = (n \<noteq> NaN \<and> n \<noteq> Fin 0)"
| "truthy (JStr s) = (s \<noteq> [])"
| "truthy (JArr xs) = True"
| "truthy (JObj kvs) = True"
| "truthy (JFun f) = True"

definition js_or :: "jsval \<Rightarrow> jsval \<Rightarrow> jsval" where
  "js_or a b = (if truthy a then a else b)"

text \<open>\<^verbatim>\<open>v == null\<close> holds of \<^verbatim>\<open>null\<close> and \<^verbatim>\<open>undefined\<close> only.\<close>

definition nullish :: "jsval \<Rightarrow> bool" where
  "nullish v = (v = JUndefined \<or> v = JNull)"

definition own_prop :: "(string \<times> jsval) list \<Rightarrow> string \<Rightarrow> jsval" where
  "own_prop kvs k = (case map_of kvs k of None \<Rightarrow> JUndefined | Some v \<Rightarrow> v)"

text \<open>
  \<^verbatim>\<open>v?.k\<close> for a property name \<open>k\<close>: \<^verbatim>\<open>undefined\<close> on \<^verbatim>\<open>null\<close> and
  \<^verbatim>\<open>undefined\<close>, the property otherwise. An array and a string have the own property
  \<^verbatim>\<open>length\<close> (their indices are read by \<open>opt_first\<close> below). Of the inherited members the
  only one whose name the program reads is the method \<^verbatim>\<open>sort\<close> of arrays (\<^verbatim>\<open>h.sort\<close>, for
  every engine hit \<^verbatim>\<open>h\<close>); a function's own properties have names the program never reads.
\<close>

fun opt_get :: "jsval \<Rightarrow> string \<Rightarrow> jsval" where
  "opt_get (JObj kvs) k = own_prop kvs k"
| "opt_get (JArr xs) k =
     (if k = ''length'' then JNum (Fin (of_nat (length xs)))
      else if k = ''sort'' then JFun ''sort'' else JUndefined)"
| "opt_get (JStr s) k =
     (if k = ''length'' then JNum (Fin (of_nat (length s))) else JUndefined)"
| "opt_get v k = JUndefined"

text \<open>
  A thrown \<^verbatim>\<open>TypeError\<close> or \<^verbatim>\<open>ReferenceError\<close>: an object with a message. The wording of
  a \<^verbatim>\<open>TypeError\<close>'s message is the JavaScript engine's; nothing below depends on it.
\<close>

definition TypeError :: "string \<Rightarrow> jsval" where
  "TypeError m = JObj [(''name'', JStr ''TypeError''), (''message'', JStr m)]"

definition ReferenceError :: "string \<Rightarrow> jsval" where
  "ReferenceError m = JObj [(''name'', JStr ''ReferenceError''), (''message'', JStr m)]"

definition cannot_read :: "jsval \<Rightarrow> string \<Rightarrow> jsval" where
  "cannot_read v k =
     TypeError (''Cannot read properties of '' @ (if v = JNull then ''null'' else ''undefined'')
                @ '' (reading '' @ [CHR 0x27] @ k @ [CHR 0x27] @ '')'')"

text \<open>\<^verbatim>\<open>v.k\<close>: throws on \<^verbatim>\<open>null\<close> and \<^verbatim>\<open>undefined\<close>. \<open>Inl\<close> is the thrown value.\<close>

definition get :: "jsval \<Rightarrow> string \<Rightarrow> jsval + jsval" where
  "get v k = (if nullish v then Inl (cannot_read v k) else Inr (opt_get v k))"

text \<open>\<^verbatim>\<open>v?.[0]\<close>.\<close>

fun opt_first :: "jsval \<Rightarrow> jsval" where
  "opt_first (JArr xs) = (case xs of [] \<Rightarrow> JUndefined | x # _ \<Rightarrow> x)"
| "opt_first (JStr s) = (case s of [] \<Rightarrow> JUndefined | c # _ \<Rightarrow> JStr [c])"
| "opt_first (JObj kvs) = own_prop kvs ''0''"
| "opt_first v = JUndefined"

text \<open>\<^verbatim>\<open>Math.min\<close> of two numbers.\<close>

fun Math_min :: "jsnum \<Rightarrow> jsnum \<Rightarrow> jsnum" where
  "Math_min NaN b = NaN"
| "Math_min a NaN = NaN"
| "Math_min NInf b = NInf"
| "Math_min a NInf = NInf"
| "Math_min PInf b = b"
| "Math_min a PInf = a"
| "Math_min (Fin x) (Fin y) = Fin (min x y)"

text \<open>\<^verbatim>\<open>n || d\<close> on numbers: \<^verbatim>\<open>NaN\<close> and zero are falsy.\<close>

definition num_or :: "jsnum \<Rightarrow> jsnum \<Rightarrow> jsnum" where
  "num_or n d = (if truthy (JNum n) then n else d)"

text \<open>The order of the doubles; nothing compares with \<^verbatim>\<open>NaN\<close>.\<close>

fun num_le :: "jsnum \<Rightarrow> jsnum \<Rightarrow> bool" where
  "num_le NaN b = False"
| "num_le a NaN = False"
| "num_le NInf b = True"
| "num_le a PInf = True"
| "num_le (Fin x) (Fin y) = (x \<le> y)"
| "num_le a b = False"

subsection \<open>Conversions\<close>

text \<open>
  \<^verbatim>\<open>String(v)\<close> and \<^verbatim>\<open>Number(v)\<close>. Reading a number out of a string and printing a
  finite number are the platform's: they are parameters, and every general statement
  below holds for each choice of them.

  Both conversions throw on some objects. An object is first turned into a primitive value
  by its methods \<^verbatim>\<open>toString\<close> and \<^verbatim>\<open>valueOf\<close> (in this order for \<^verbatim>\<open>String\<close>, in the
  other for \<^verbatim>\<open>Number\<close>), and a \<^verbatim>\<open>TypeError\<close> is thrown when neither gives one. The
  inherited \<^verbatim>\<open>valueOf\<close> returns the object itself, which is no primitive value, and the
  inherited \<^verbatim>\<open>toString\<close> returns \<^verbatim>\<open>[object Object]\<close>. An own property \<^verbatim>\<open>toString\<close> hides
  the inherited method: a value that is no function is passed over, and the one function
  of the model, \<^verbatim>\<open>sort\<close>, returns the object it is called on. So, for either conversion, an
  object with an own property \<^verbatim>\<open>toString\<close> throws and any other object reads
  \<^verbatim>\<open>[object Object]\<close>. A list is joined with commas, each element but \<^verbatim>\<open>null\<close> and
  \<^verbatim>\<open>undefined\<close> converted in turn, so a list throws when one of its elements does.
\<close>

record platform =
  number_of_string :: "string \<Rightarrow> jsnum"
  string_of_number :: "rat \<Rightarrow> string"

fun join_comma :: "string list \<Rightarrow> string" where
  "join_comma [] = []"
| "join_comma [s] = s"
| "join_comma (s # t # ss) = s @ '','' @ join_comma (t # ss)"

definition has_own :: "(string \<times> jsval) list \<Rightarrow> string \<Rightarrow> bool" where
  "has_own kvs k = (k \<in> set (map fst kvs))"

definition not_primitive :: jsval where
  "not_primitive = TypeError ''Cannot convert object to primitive value''"

fun String_js :: "platform \<Rightarrow> jsval \<Rightarrow> jsval + string"
  and join_js :: "platform \<Rightarrow> jsval list \<Rightarrow> jsval + string list" where
  "String_js p JUndefined = Inr ''undefined''"
| "String_js p JNull = Inr ''null''"
| "String_js p (JBool b) = Inr (if b then ''true'' else ''false'')"
| "String_js p (JNum NaN) = Inr ''NaN''"
| "String_js p (JNum PInf) = Inr ''Infinity''"
| "String_js p (JNum NInf) = Inr ''-Infinity''"
| "String_js p (JNum (Fin r)) = Inr (string_of_number p r)"
| "String_js p (JStr s) = Inr s"
| "String_js p (JArr xs) =
     (case join_js p xs of Inl e \<Rightarrow> Inl e | Inr ss \<Rightarrow> Inr (join_comma ss))"
| "String_js p (JObj kvs) =
     (if has_own kvs ''toString'' then Inl not_primitive else Inr ''[object Object]'')"
| "String_js p (JFun f) = Inr (''function '' @ f @ ''() { [native code] }'')"
| "join_js p [] = Inr []"
| "join_js p (x # xs) =
     (case (if x = JUndefined \<or> x = JNull then Inr [] else String_js p x) of
        Inl e \<Rightarrow> Inl e
      | Inr s \<Rightarrow> (case join_js p xs of Inl e \<Rightarrow> Inl e | Inr ss \<Rightarrow> Inr (s # ss)))"

fun Number_js :: "platform \<Rightarrow> jsval \<Rightarrow> jsval + jsnum" where
  "Number_js p JUndefined = Inr NaN"
| "Number_js p JNull = Inr (Fin 0)"
| "Number_js p (JBool b) = Inr (if b then Fin 1 else Fin 0)"
| "Number_js p (JNum n) = Inr n"
| "Number_js p (JStr s) = Inr (number_of_string p s)"
| "Number_js p v =
     (case String_js p v of Inl e \<Rightarrow> Inl e | Inr s \<Rightarrow> Inr (number_of_string p s))"

section \<open>Input guards\<close>

text \<open>
  \<^verbatim>\<open>
  function asArray(v) {
    if (v == null) return [];
    return Array.isArray(v) ? v : [v];
  }
  \<close>
\<close>

definition isArray :: "jsval \<Rightarrow> bool" where
  "isArray v = (case v of JArr xs \<Rightarrow> True | _ \<Rightarrow> False)"

definition asArray :: "jsval \<Rightarrow> jsval list" where
  "asArray v = (if nullish v then [] else case v of JArr xs \<Rightarrow> xs | _ \<Rightarrow> [v])"

section \<open>POST /search: composing the engine request\<close>

text \<open>
  The destructuring of \<^verbatim>\<open>req.body || {}\<close>: a default stands in for a property that is
  \<^verbatim>\<open>undefined\<close> (absent), and for no other value. The fields carry the source's names with
  \<open>_in\<close> appended.
\<close>

record search_args =
  q_in :: jsval
  services_in :: jsval
  levels_in :: jsval
  time_in :: jsval
  size_in :: jsval
  pit_in :: jsval
  cursor_in :: jsval
  highlight_in :: jsval
  includeTimeline_in :: jsval
  includeFacets_in :: jsval

definition dflt :: "jsval \<Rightarrow> jsval \<Rightarrow> jsval" where
  "dflt v d = (if v = JUndefined then d else v)"

definition default_q :: string where
  "default_q = [CHR 0x22] @ ''error'' @ [CHR 0x22] @ '' | timeout''"

definition destructure :: "jsval \<Rightarrow> search_args" where
  "destructure req_body =
     (let b = js_or req_body (JObj []) in
      \<lparr> q_in = dflt (opt_get b ''q'') (JStr default_q),
        services_in = dflt (opt_get b ''services'') (JArr []),
        levels_in = dflt (opt_get b ''levels'') (JArr []),
        time_in = dflt (opt_get b ''time'')
                    (JObj [(''gte'', JStr ''now-24h''), (''lte'', JStr ''now'')]),
        size_in = dflt (opt_get b ''size'') (JNum (Fin 100)),
        pit_in = opt_get b ''pit'',
        cursor_in = opt_get b ''cursor'',
        highlight_in = dflt (opt_get b ''highlight'') (JBool True),
        includeTimeline_in = dflt (opt_get b ''includeTimeline'') (JBool True),
        includeFacets_in = dflt (opt_get b ''includeFacets'') (JBool True) \<rparr>)"

subsection \<open>The two lexical legs\<close>

text \<open>
  \<^verbatim>\<open>String(q).replace(/[^\w\s"]/g, " ")\<close>: every code unit that is neither a word
  character (\<^verbatim>\<open>[A-Za-z0-9_]\<close>), nor white space, nor a double quote becomes one space.
  Below 256 the white space of \<^verbatim>\<open>\s\<close> is tab, line feed, vertical tab, form feed,
  carriage return, space and the no-break space.
\<close>

definition word_char :: "char \<Rightarrow> bool" where
  "word_char c =
     (c \<in> set ''ABCDEFGHIJKLMNOPQRSTUVWXYZabcdefghijklmnopqrstuvwxyz0123456789_'')"

definition space_char :: "char \<Rightarrow> bool" where
  "space_char c =
     (c \<in> set [CHR 0x09, CHR 0x0A, CHR 0x0B, CHR 0x0C, CHR 0x0D, CHR 0x20, CHR 0xA0])"

definition kept_char :: "char \<Rightarrow> bool" where
  "kept_char c = (word_char c \<or> space_char c \<or> c = CHR 0x22)"

definition replace_unsafe :: "string \<Rightarrow> string" where
  "replace_unsafe s = map (\<lambda>c. if kept_char c then c else CHR 0x20) s"

definition lexical_fields :: "string list" where
  "lexical_fields = [''message^4'', ''service'', ''path'', ''error.code'', ''host'']"

definition fuzzy_fields :: "string list" where
  "fuzzy_fields = [''message^3'', ''path'', ''service'', ''host'']"

text \<open>The array \<^verbatim>\<open>must\<close>; \<^verbatim>\<open>String(q)\<close> may throw.\<close>

definition must :: "platform \<Rightarrow> jsval \<Rightarrow> jsval + jsval list" where
  "must p q =
     (case String_js p q of
        Inl e \<Rightarrow> Inl e
      | Inr s \<Rightarrow>
          Inr [ JObj [(''simple_query_string'',
                  JObj [(''query'', q),
                        (''fields'', JArr (map JStr lexical_fields)),
                        (''default_operator'', JStr ''and'')])],
                JObj [(''multi_match'',
                  JObj [(''query'', JStr (replace_unsafe s)),
                        (''fields'', JArr (map JStr fuzzy_fields)),
                        (''fuzziness'', JStr ''AUTO''),
                        (''prefix_length'', JNum (Fin 2))])] ])"

subsection \<open>The filters\<close>

text \<open>
  \<^verbatim>\<open>time.gte\<close> throws when \<^verbatim>\<open>time\<close> is \<^verbatim>\<open>null\<close> (the default covers \<^verbatim>\<open>undefined\<close>
  only).
\<close>

definition terms_clause :: "string \<Rightarrow> jsval \<Rightarrow> jsval list" where
  "terms_clause field v =
     (if asArray v \<noteq> [] then [JObj [(''terms'', JObj [(field, JArr (asArray v))])]] else [])"

definition filter_clauses :: "search_args \<Rightarrow> jsval + jsval list" where
  "filter_clauses a =
     (case get (time_in a) ''gte'' of
        Inl e \<Rightarrow> Inl e
      | Inr gte \<Rightarrow>
          (case get (time_in a) ''lte'' of
             Inl e \<Rightarrow> Inl e
           | Inr lte \<Rightarrow>
               Inr ([JObj [(''range'', JObj [(''@timestamp'',
                       JObj [(''gte'', js_or gte (JStr ''now-24h'')),
                             (''lte'', js_or lte (JStr ''now''))])])]]
                    @ terms_clause ''level'' (levels_in a)
                    @ terms_clause ''service'' (services_in a))))"

subsection \<open>The body\<close>

text \<open>\<^verbatim>\<open>Math.min(Number(size) || 50, 1000)\<close>; \<^verbatim>\<open>Number(size)\<close> may throw.\<close>

definition body_size :: "platform \<Rightarrow> jsval \<Rightarrow> jsval + jsnum" where
  "body_size p v =
     (case Number_js p v of
        Inl e \<Rightarrow> Inl e
      | Inr n \<Rightarrow> Inr (Math_min (num_or n (Fin 50)) (Fin 1000)))"

definition rescore :: "jsnum \<Rightarrow> jsval" where
  "rescore sz =
     JObj [(''window_size'', JNum (Math_min (Fin 1000) sz)),
           (''query'', JObj
              [(''rescore_query'', JObj [(''match_phrase'', JObj [(''message'',
                  JObj [(''query'', JStr ''connection reset''),
                        (''slop'', JNum (Fin 1)),
                        (''boost'', JNum (Fin 6))])])]),
               (''query_weight'', JNum (Fin 1)),
               (''rescore_query_weight'', JNum (Fin 2))])]"

definition facet_aggs :: jsval where
  "facet_aggs =
     JObj [(''by_service'', JObj [(''terms'', JObj [(''field'', JStr ''service''), (''size'', JNum (Fin 25))])]),
           (''by_level'', JObj [(''terms'', JObj [(''field'', JStr ''level''), (''size'', JNum (Fin 8))])]),
           (''by_error_code'', JObj [(''terms'', JObj [(''field'', JStr ''error.code''), (''size'', JNum (Fin 20))])])]"

definition timeline_agg :: jsval where
  "timeline_agg =
     JObj [(''date_histogram'',
            JObj [(''field'', JStr ''@timestamp''), (''fixed_interval'', JStr ''5m'')])]"

text \<open>\<^verbatim>\<open>{...o}\<close>: the own properties of an object (nothing else is spread here).\<close>

definition spread :: "jsval \<Rightarrow> (string \<times> jsval) list" where
  "spread v = (case v of JObj kvs \<Rightarrow> kvs | _ \<Rightarrow> [])"

text \<open>
  The body as built up to the pagination stage: the object literal, then the assignments
  \<^verbatim>\<open>body.rescore = ...\<close>, \<^verbatim>\<open>body.highlight = ...\<close> and \<^verbatim>\<open>body.aggs = ...\<close>. An
  assignment \<^verbatim>\<open>body.k = v\<close> replaces the property in place or appends it. The literal
  is built from the array \<^verbatim>\<open>must\<close>, the array \<^verbatim>\<open>filter\<close> and the size.
\<close>

definition initial_body :: "jsval list \<Rightarrow> jsval list \<Rightarrow> jsnum \<Rightarrow> (string \<times> jsval) list" where
  "initial_body legs flt sz =
     [(''size'', JNum sz),
      (''track_total_hits'', JBool True),
      (''query'', JObj [(''function_score'', JObj
         [(''query'', JObj [(''bool'', JObj
             [(''must'', JArr legs), (''filter'', JArr flt)])]),
          (''functions'', JArr [JObj [(''exp'', JObj [(''@timestamp'',
             JObj [(''origin'', JStr ''now''), (''scale'', JStr ''2h''),
                   (''decay'', JNum (Fin (6 / 10)))])])]]),
          (''score_mode'', JStr ''multiply''),
          (''boost_mode'', JStr ''multiply'')])]),
      (''sort'', JArr [JObj [(''@timestamp'', JStr ''desc'')],
                       JObj [(''_shard_doc'', JStr ''desc'')]]),
      (''_source'', JObj [(''includes'', JArr (map JStr
         [''@timestamp'', ''level'', ''service'', ''error.code'', ''host'',
          ''path'', ''message'']))])]"

definition add_highlight :: "search_args \<Rightarrow> (string \<times> jsval) list \<Rightarrow> (string \<times> jsval) list" where
  "add_highlight a body =
     (if truthy (highlight_in a)
      then AList.update ''highlight''
             (JObj [(''fields'', JObj [(''message'',
                JObj [(''fragment_size'', JNum (Fin 180)),
                      (''number_of_fragments'', JNum (Fin 1))])])])
             body
      else body)"

definition add_facets :: "search_args \<Rightarrow> (string \<times> jsval) list \<Rightarrow> (string \<times> jsval) list" where
  "add_facets a body =
     (if truthy (includeFacets_in a) then AList.update ''aggs'' facet_aggs body else body)"

definition add_timeline :: "search_args \<Rightarrow> (string \<times> jsval) list \<Rightarrow> (string \<times> jsval) list" where
  "add_timeline a body =
     (if truthy (includeTimeline_in a)
      then AList.update ''aggs''
             (JObj (AList.update ''timeline'' timeline_agg
                      (spread (js_or (own_prop body ''aggs'') (JObj [])))))
             body
      else body)"

text \<open>
  The statements run in the source's order, and the first that throws ends the composition:
  \<^verbatim>\<open>const must = ...\<close> (where \<^verbatim>\<open>String(q)\<close> may throw), \<^verbatim>\<open>const filter = ...\<close> (where
  \<^verbatim>\<open>time.gte\<close> may), \<^verbatim>\<open>const body = ...\<close> (where \<^verbatim>\<open>Number(size)\<close> may).
\<close>

definition compose_body :: "platform \<Rightarrow> search_args \<Rightarrow> jsval + (string \<times> jsval) list" where
  "compose_body p a =
     (case must p (q_in a) of
        Inl e \<Rightarrow> Inl e
      | Inr legs \<Rightarrow>
          (case filter_clauses a of
             Inl e \<Rightarrow> Inl e
           | Inr flt \<Rightarrow>
               (case body_size p (size_in a) of
                  Inl e \<Rightarrow> Inl e
                | Inr sz \<Rightarrow>
                    Inr (add_timeline a (add_facets a (add_highlight a
                           (AList.update ''rescore'' (rescore sz)
                              (initial_body legs flt sz))))))))"

section \<open>The engine and the response\<close>

text \<open>
  The engine client \<^verbatim>\<open>es\<close> is outside the gateway. Each of its three calls takes the
  argument object and either resolves to a value (\<open>Inr\<close>) or rejects with one (\<open>Inl\<close>); a
  handler makes each call at most once, so a function of the argument describes it. The
  calls a handler makes are recorded in order.
\<close>

record es_client =
  openPointInTime :: "jsval \<Rightarrow> jsval + jsval"
  search :: "jsval \<Rightarrow> jsval + jsval"
  closePointInTime :: "jsval \<Rightarrow> jsval + jsval"

datatype es_call = OpenPointInTime jsval | Search jsval | ClosePointInTime jsval

text \<open>What \<^verbatim>\<open>res.status(s).json(b)\<close> sends; \<^verbatim>\<open>res.json(b)\<close> alone sends status 200.\<close>

record response =
  status :: jsval
  json :: jsval

text \<open>
  The index pattern. Its declaration is commented out in the source
  (\<^verbatim>\<open>//const INDEX = process.env.LOG_INDEX_PATTERN || "logs-*";\<close>), so the identifier is
  unbound and evaluating it throws a \<^verbatim>\<open>ReferenceError\<close>.
\<close>

definition INDEX :: "jsval option" where
  "INDEX = None"

subsection \<open>Projecting the engine's answer\<close>

text \<open>One element of \<^verbatim>\<open>.map((h) => ({ id: h._id, sort: h.sort, ... }))\<close>.\<close>

definition project_hit :: "jsval \<Rightarrow> jsval + jsval" where
  "project_hit h =
     (if nullish h then Inl (cannot_read h ''_id'')
      else Inr (JObj
        [(''id'', opt_get h ''_id''),
         (''sort'', opt_get h ''sort''),
         (''ts'', opt_get (opt_get h ''_source'') ''@timestamp''),
         (''level'', opt_get (opt_get h ''_source'') ''level''),
         (''service'', opt_get (opt_get h ''_source'') ''service''),
         (''code'', opt_get (opt_get (opt_get h ''_source'') ''error'') ''code''),
         (''host'', opt_get (opt_get h ''_source'') ''host''),
         (''path'', opt_get (opt_get h ''_source'') ''path''),
         (''message'', opt_get (opt_get h ''_source'') ''message''),
         (''snippet'', opt_first (opt_get (opt_get h ''highlight'') ''message'')),
         (''score'', opt_get h ''_score'')]))"

fun map_hits :: "jsval list \<Rightarrow> jsval + jsval list" where
  "map_hits [] = Inr []"
| "map_hits (h # hs) =
     (case project_hit h of
        Inl e \<Rightarrow> Inl e
      | Inr x \<Rightarrow> (case map_hits hs of Inl e \<Rightarrow> Inl e | Inr xs \<Rightarrow> Inr (x # xs)))"

text \<open>
  \<^verbatim>\<open>resp.body?.hits?.hits || resp.hits?.hits || []\<close>, the facets and the timeline, and the
  object given to \<^verbatim>\<open>res.json\<close>. \<^verbatim>\<open>resp.body\<close> throws when \<^verbatim>\<open>resp\<close> is \<^verbatim>\<open>null\<close> or
  \<^verbatim>\<open>undefined\<close>; \<^verbatim>\<open>.map\<close> throws when the hits are not an array. A property whose value
  is \<^verbatim>\<open>undefined\<close> is left out of the JSON text that is sent.
\<close>

definition raw_hits :: "jsval \<Rightarrow> jsval" where
  "raw_hits resp =
     js_or (opt_get (opt_get (opt_get resp ''body'') ''hits'') ''hits'')
       (js_or (opt_get (opt_get resp ''hits'') ''hits'') (JArr []))"

definition aggregations :: "jsval \<Rightarrow> jsval" where
  "aggregations resp = opt_get (opt_get resp ''body'') ''aggregations''"

definition buckets_or_empty :: "jsval \<Rightarrow> string \<Rightarrow> jsval" where
  "buckets_or_empty aggs k = js_or (opt_get (opt_get aggs k) ''buckets'') (JArr [])"

definition facets :: "jsval \<Rightarrow> jsval" where
  "facets resp =
     (if truthy (aggregations resp)
      then JObj [(''services'', buckets_or_empty (aggregations resp) ''by_service''),
                 (''levels'', buckets_or_empty (aggregations resp) ''by_level''),
                 (''errorCodes'', buckets_or_empty (aggregations resp) ''by_error_code'')]
      else JUndefined)"

definition timeline :: "jsval \<Rightarrow> jsval" where
  "timeline resp =
     js_or (opt_get (opt_get (aggregations resp) ''timeline'') ''buckets'') JUndefined"

definition nextCursor :: "jsval list \<Rightarrow> jsval" where
  "nextCursor hits = (if hits \<noteq> [] then opt_get (last hits) ''sort'' else JNull)"

definition project :: "jsval \<Rightarrow> jsval \<Rightarrow> jsval \<Rightarrow> jsval + jsval" where
  "project resp pitId keepAlive =
     (if nullish resp then Inl (cannot_read resp ''body'')
      else case raw_hits resp of
        JArr hs \<Rightarrow>
          (case map_hits hs of
             Inl e \<Rightarrow> Inl e
           | Inr hits \<Rightarrow>
               Inr (JObj
                 [(''ok'', JBool True),
                  (''total'', js_or (opt_get (opt_get (opt_get resp ''body'') ''hits'') ''total'')
                                (opt_get (opt_get resp ''hits'') ''total'')),
                  (''pit'', JObj [(''id'', js_or (opt_get (opt_get resp ''body'') ''pit_id'') pitId),
                                  (''keep_alive'', keepAlive)]),
                  (''hits'', JArr hits),
                  (''facets'', facets resp),
                  (''timeline'', timeline resp),
                  (''nextCursor'', nextCursor hits)]))
      | _ \<Rightarrow> Inl (TypeError ''(intermediate value).map is not a function''))"

subsection \<open>The catch blocks\<close>

text \<open>
  \<^verbatim>\<open>
  const status = err?.statusCode || err?.meta?.statusCode || 500;
  res.status(status).json({ ok: false,
    error: err?.meta?.body?.error || err?.message || "Search error" });
  \<close>
  The close-pit handler's block differs in the last string only. Logging is left out.
\<close>

definition catch_response :: "string \<Rightarrow> jsval \<Rightarrow> response" where
  "catch_response fallback err =
     \<lparr> status = js_or (opt_get err ''statusCode'')
                  (js_or (opt_get (opt_get err ''meta'') ''statusCode'') (JNum (Fin 500))),
       json = JObj [(''ok'', JBool False),
                    (''error'', js_or (opt_get (opt_get (opt_get err ''meta'') ''body'') ''error'')
                                  (js_or (opt_get err ''message'') (JStr fallback)))] \<rparr>"

section \<open>POST /search\<close>

text \<open>
  The pagination stage. Without a truthy \<^verbatim>\<open>pit.id\<close> the handler evaluates
  \<^verbatim>\<open>es.openPointInTime({ index: INDEX, keep_alive: keepAlive })\<close>: the argument first, so
  an unbound \<^verbatim>\<open>INDEX\<close> throws before the engine is called.
\<close>

definition open_pit :: "es_client \<Rightarrow> jsval \<Rightarrow> es_call list \<times> (jsval + jsval)" where
  "open_pit es keepAlive =
     (case INDEX of
        None \<Rightarrow> ([], Inl (ReferenceError ''INDEX is not defined''))
      | Some ix \<Rightarrow>
          (let arg = JObj [(''index'', ix), (''keep_alive'', keepAlive)] in
           case openPointInTime es arg of
             Inl e \<Rightarrow> ([OpenPointInTime arg], Inl e)
           | Inr pitRes \<Rightarrow>
               ([OpenPointInTime arg],
                Inr (js_or (opt_get (opt_get pitRes ''body'') ''id'') (opt_get pitRes ''id'')))))"

text \<open>\<^verbatim>\<open>body.pit = {...}; if (Array.isArray(cursor) && cursor.length) body.search_after = cursor;\<close>\<close>

definition paginate ::
  "search_args \<Rightarrow> jsval \<Rightarrow> jsval \<Rightarrow> (string \<times> jsval) list \<Rightarrow> (string \<times> jsval) list" where
  "paginate a pitId keepAlive body =
     (let body5 = AList.update ''pit'' (JObj [(''id'', pitId), (''keep_alive'', keepAlive)]) body
      in case cursor_in a of
           JArr c \<Rightarrow> (if c \<noteq> [] then AList.update ''search_after'' (JArr c) body5 else body5)
         | _ \<Rightarrow> body5)"

text \<open>\<^verbatim>\<open>let pitId = pit?.id; const keepAlive = pit?.keep_alive || "1m";\<close>\<close>

definition pit_id :: "search_args \<Rightarrow> jsval" where
  "pit_id a = opt_get (pit_in a) ''id''"

definition keepAlive :: "search_args \<Rightarrow> jsval" where
  "keepAlive a = js_or (opt_get (pit_in a) ''keep_alive'') (JStr ''1m'')"

text \<open>
  The \<^verbatim>\<open>try\<close> block: the calls made, and the value given to \<^verbatim>\<open>res.json\<close> or thrown.
  The engine's search call gets \<^verbatim>\<open>{ body }\<close>.
\<close>

definition search_try :: "platform \<Rightarrow> es_client \<Rightarrow> jsval \<Rightarrow> es_call list \<times> (jsval + jsval)" where
  "search_try p es req_body =
     (let a = destructure req_body in
      case compose_body p a of
        Inl e \<Rightarrow> ([], Inl e)
      | Inr body \<Rightarrow>
          (case (if truthy (pit_id a) then ([], Inr (pit_id a)) else open_pit es (keepAlive a)) of
             (calls, Inl e) \<Rightarrow> (calls, Inl e)
           | (calls, Inr pitId) \<Rightarrow>
               (let sent = JObj [(''body'', JObj (paginate a pitId (keepAlive a) body))] in
                case search es sent of
                  Inl e \<Rightarrow> (calls @ [Search sent], Inl e)
                | Inr resp \<Rightarrow> (calls @ [Search sent], project resp pitId (keepAlive a)))))"

definition post_search :: "platform \<Rightarrow> es_client \<Rightarrow> jsval \<Rightarrow> es_call list \<times> response" where
  "post_search p es req_body =
     (case search_try p es req_body of
        (calls, Inr out) \<Rightarrow> (calls, \<lparr> status = JNum (Fin 200), json = out \<rparr>)
      | (calls, Inl err) \<Rightarrow> (calls, catch_response ''Search error'' err))"

section \<open>POST /close-pit\<close>

text \<open>
  \<^verbatim>\<open>
  const id = req.body?.id;
  if (!id) return res.status(400).json({ ok: false, error: "Missing PIT id" });
  await es.closePointInTime({ body: { id } });
  res.json({ ok: true });
  \<close>
\<close>

definition post_close_pit :: "es_client \<Rightarrow> jsval \<Rightarrow> es_call list \<times> response" where
  "post_close_pit es req_body =
     (let id = opt_get req_body ''id'' in
      if truthy id
      then (let arg = JObj [(''body'', JObj [(''id'', id)])] in
            case closePointInTime es arg of
              Inl err \<Rightarrow> ([ClosePointInTime arg], catch_response ''Close PIT error'' err)
            | Inr done \<Rightarrow> ([ClosePointInTime arg],
                           \<lparr> status = JNum (Fin 200), json = JObj [(''ok'', JBool True)] \<rparr>))
      else ([], \<lparr> status = JNum (Fin 400),
                  json = JObj [(''ok'', JBool False), (''error'', JStr ''Missing PIT id'')] \<rparr>))"

section \<open>Vocabulary of the statements\<close>

text \<open>The bodies of the search calls among the calls a handler made.\<close>

fun search_bodies :: "es_call list \<Rightarrow> jsval list" where
  "search_bodies [] = []"
| "search_bodies (Search sent # cs) = opt_get sent ''body'' # search_bodies cs"
| "search_bodies (c # cs) = search_bodies cs"

text \<open>
  The fields a query clause \<^verbatim>\<open>{kind: {fields: [...], ...}}\<close> matches over, each with its
  weight: a field is written \<^verbatim>\<open>name\<close> or \<^verbatim>\<open>name^boost\<close>, and the weight is 1 when no boost
  is written.
\<close>

definition field_name :: "string \<Rightarrow> string" where
  "field_name f = takeWhile (\<lambda>c. c \<noteq> CHR ''^'') f"

definition field_boost :: "string \<Rightarrow> nat" where
  "field_boost f =
     (case dropWhile (\<lambda>c. c \<noteq> CHR ''^'') f of
        [] \<Rightarrow> 1
      | c # ds \<Rightarrow> foldl (\<lambda>n d. 10 * n + (of_char d - 48)) 0 ds)"

fun clause_fields :: "jsval \<Rightarrow> (string \<times> nat) list" where
  "clause_fields (JObj [(kind, inner)]) =
     (case opt_get inner ''fields'' of
        JArr fs \<Rightarrow> concat (map (\<lambda>f. case f of JStr s \<Rightarrow> [(field_name s, field_boost s)] | _ \<Rightarrow> []) fs)
      | _ \<Rightarrow> [])"
| "clause_fields v = []"

subsection \<open>Concrete inputs\<close>

text \<open>
  The closed examples below run the handlers on these. Their inputs carry numbers where a
  number is read and strings where a string is read, so the platform's two conversions
  are never applied in them.
\<close>

definition example_platform :: platform where
  "example_platform = \<lparr> number_of_string = (\<lambda>s. NaN), string_of_number = (\<lambda>r. []) \<rparr>"

text \<open>An engine whose search and close calls all settle the same way.\<close>

definition example_es :: "jsval + jsval \<Rightarrow> es_client" where
  "example_es answer =
     \<lparr> openPointInTime = (\<lambda>arg. Inr (JObj [(''id'', JStr ''pit-0'')])),
       search = (\<lambda>arg. answer),
       closePointInTime = (\<lambda>arg. answer) \<rparr>"

text \<open>
  An answer of the engine with two hits and, of the aggregations, the timeline only (what
  an engine returns that was asked for the timeline and not for the facets).
\<close>

definition example_resp :: jsval where
  "example_resp = JObj [(''body'', JObj
     [(''hits'', JObj [(''total'', JObj [(''value'', JNum (Fin 2))]),
        (''hits'', JArr
           [JObj [(''_id'', JStr ''doc#41''),
                  (''sort'', JArr [JNum (Fin 1700000000500), JStr ''doc#41''])],
            JObj [(''_id'', JStr ''doc#42''),
                  (''sort'', JArr [JNum (Fin 1700000000000), JStr ''doc#42''])]])]),
      (''aggregations'', JObj [(''timeline'',
         JObj [(''buckets'', JArr [JObj [(''doc_count'', JNum (Fin 2))]])])])])]"

text \<open>A first-page request: no \<^verbatim>\<open>pit\<close>, no \<^verbatim>\<open>cursor\<close>.\<close>

definition first_page :: jsval where
  "first_page = JObj [(''q'', JStr ''timeout'')]"

text \<open>A request for a later page: a \<^verbatim>\<open>pit.id\<close> and further properties.\<close>

definition page_request :: "string \<Rightarrow> (string \<times> jsval) list \<Rightarrow> jsval" where
  "page_request pid rest = JObj ((''pit'', JObj [(''id'', JStr pid)]) # rest)"

text \<open>The sort values of the last hit of \<open>example_resp\<close>.\<close>

definition example_cursor :: jsval where
  "example_cursor = JArr [JNum (Fin 1700000000000), JStr ''doc#42'']"

text \<open>A later-page request with a numeric \<^verbatim>\<open>size\<close>.\<close>

definition sized_request :: "rat \<Rightarrow> jsval" where
  "sized_request s = page_request ''A'' [(''size'', JNum (Fin s))]"

text \<open>A later-page request with a query of its own and every toggle off.\<close>

definition quiet_request :: jsval where
  "quiet_request = page_request ''A''
     [(''q'', JStr ''disk full''), (''size'', JNum (Fin 20)), (''highlight'', JBool False),
      (''includeFacets'', JBool False), (''includeTimeline'', JBool False)]"

text \<open>A later-page request that turns the facets off and leaves the timeline on.\<close>

definition no_facets_request :: jsval where
  "no_facets_request = page_request ''A'' [(''includeFacets'', JBool False)]"

text \<open>
  A later-page request, with a cursor, whose query is an object with an own property
  \<^verbatim>\<open>toString\<close>: \<^verbatim>\<open>String(q)\<close> throws on it.
\<close>

definition unprintable_request :: jsval where
  "unprintable_request = page_request ''A''
     [(''q'', JObj [(''toString'', JNum (Fin 1))]), (''cursor'', example_cursor)]"

text \<open>A later-page request whose query uses operators.\<close>

definition operator_request :: jsval where
  "operator_request = page_request ''A'' [(''q'', JStr ''disk+full | (io)'')]"

text \<open>
  Two rejections of an engine call: a connection error, which has a message and nothing
  else, and an engine-reported error with a status and a structured body.
\<close>

definition refused :: jsval where
  "refused = JObj [(''name'', JStr ''ConnectionError''), (''message'', JStr ''connect ECONNREFUSED'')]"

definition gone :: jsval where
  "gone = JObj [(''statusCode'', JNum (Fin 404)),
                (''message'', JStr ''search_phase_execution_exception''),
                (''meta'', JObj [(''statusCode'', JNum (Fin 404)),
                   (''body'', JObj [(''error'', JObj [(''type'', JStr ''search_context_missing_exception'')])])])]"

section \<open>Properties of the building blocks\<close>

lemma own_prop_update:
  "own_prop (AList.update k v kvs) k' = (if k' = k then v else own_prop kvs k')"
  by (simp add: own_prop_def update_conv')

lemma Math_min_commute: "Math_min a b = Math_min b a"
  by (cases a; cases b) (simp_all add: min.commute)

lemma asArray_list: "asArray (JArr xs) = xs"
  by (simp add: asArray_def nullish_def)

lemma asArray_scalar: "\<not> nullish v \<Longrightarrow> \<not> isArray v \<Longrightarrow> asArray v = [v]"
  by (cases v) (simp_all add: asArray_def isArray_def)

lemma terms_clause_scalar:
  "\<not> nullish v \<Longrightarrow> \<not> isArray v \<Longrightarrow> terms_clause f v = terms_clause f (JArr [v])"
  by (simp add: terms_clause_def asArray_list asArray_scalar)

lemma filter_clauses_levels_scalar:
  "\<not> nullish v \<Longrightarrow> \<not> isArray v \<Longrightarrow>
   filter_clauses (a\<lparr>levels_in := v\<rparr>) = filter_clauses (a\<lparr>levels_in := JArr [v]\<rparr>)"
  by (simp add: filter_clauses_def terms_clause_scalar split: sum.splits)

lemma filter_clauses_services_scalar:
  "\<not> nullish v \<Longrightarrow> \<not> isArray v \<Longrightarrow>
   filter_clauses (a\<lparr>services_in := v\<rparr>) = filter_clauses (a\<lparr>services_in := JArr [v]\<rparr>)"
  by (simp add: filter_clauses_def terms_clause_scalar split: sum.splits)

subsection \<open>Composition\<close>

lemma time_in_defined: "time_in (destructure rb) \<noteq> JUndefined"
  by (simp add: destructure_def Let_def dflt_def)

lemma time_nullish: "nullish (time_in (destructure rb)) = (time_in (destructure rb) = JNull)"
  by (simp add: nullish_def time_in_defined)

lemma filter_clauses_Inr:
  "\<not> nullish (time_in a) \<Longrightarrow> \<exists>flt. filter_clauses a = Inr flt"
  by (simp add: filter_clauses_def get_def)

lemma filter_clauses_Inl:
  "nullish (time_in a) \<Longrightarrow> filter_clauses a = Inl (cannot_read (time_in a) ''gte'')"
  by (simp add: filter_clauses_def get_def)

lemma compose_body_Inr:
  "String_js p (q_in a) = Inr s \<Longrightarrow> \<not> nullish (time_in a) \<Longrightarrow> Number_js p (size_in a) = Inr n \<Longrightarrow>
   \<exists>body. compose_body p a = Inr body"
  using filter_clauses_Inr [of a] by (auto simp: compose_body_def must_def body_size_def)

lemma compose_body_Inl_q:
  "String_js p (q_in a) = Inl e \<Longrightarrow> compose_body p a = Inl e"
  by (simp add: compose_body_def must_def)

lemma compose_body_Inl_time:
  "String_js p (q_in a) = Inr s \<Longrightarrow> nullish (time_in a) \<Longrightarrow>
   compose_body p a = Inl (cannot_read (time_in a) ''gte'')"
  by (simp add: compose_body_def must_def filter_clauses_Inl)

lemma compose_body_Inl_size:
  "String_js p (q_in a) = Inr s \<Longrightarrow> \<not> nullish (time_in a) \<Longrightarrow> Number_js p (size_in a) = Inl e \<Longrightarrow>
   compose_body p a = Inl e"
  using filter_clauses_Inr [of a] by (auto simp: compose_body_def must_def body_size_def)

lemma compose_body_parts:
  assumes "compose_body p a = Inr body"
  obtains legs flt sz where "must p (q_in a) = Inr legs" "filter_clauses a = Inr flt"
    "body_size p (size_in a) = Inr sz"
    "body = add_timeline a (add_facets a (add_highlight a
              (AList.update ''rescore'' (rescore sz) (initial_body legs flt sz))))"
  using assms by (auto simp: compose_body_def split: sum.splits)

lemma add_highlight_prop:
  "k \<noteq> ''highlight'' \<Longrightarrow> own_prop (add_highlight a body) k = own_prop body k"
  by (simp add: add_highlight_def own_prop_update)

lemma add_facets_prop:
  "own_prop (add_facets a body) k =
     (if k = ''aggs'' \<and> truthy (includeFacets_in a) then facet_aggs else own_prop body k)"
  by (simp add: add_facets_def own_prop_update)

lemma add_timeline_prop:
  "own_prop (add_timeline a body) k =
     (if k = ''aggs'' \<and> truthy (includeTimeline_in a)
      then JObj (AList.update ''timeline'' timeline_agg
                   (spread (js_or (own_prop body ''aggs'') (JObj []))))
      else own_prop body k)"
  by (simp add: add_timeline_def own_prop_update)

lemma initial_body_props:
  "own_prop (initial_body legs flt sz) ''size'' = JNum sz"
  "own_prop (initial_body legs flt sz) ''aggs'' = JUndefined"
  "own_prop (initial_body legs flt sz) ''pit'' = JUndefined"
  "own_prop (initial_body legs flt sz) ''search_after'' = JUndefined"
  "own_prop (initial_body legs flt sz) ''rescore'' = JUndefined"
  "opt_get (opt_get (opt_get (opt_get (own_prop (initial_body legs flt sz) ''query'')
      ''function_score'') ''query'') ''bool'') ''must'' = JArr legs"
  by (simp_all add: initial_body_def own_prop_def)

lemmas composed_props =
  add_timeline_prop add_facets_prop add_highlight_prop own_prop_update initial_body_props

lemma compose_body_size:
  assumes "compose_body p a = Inr body"
  shows "\<exists>sz. body_size p (size_in a) = Inr sz \<and> own_prop body ''size'' = JNum sz \<and>
           own_prop body ''rescore'' = rescore sz"
  using assms by (rule compose_body_parts) (simp add: composed_props)

lemma compose_body_no_pagination:
  assumes "compose_body p a = Inr body"
  shows "own_prop body ''search_after'' = JUndefined \<and> own_prop body ''pit'' = JUndefined"
  using assms by (rule compose_body_parts) (simp add: composed_props)

lemma compose_body_must:
  assumes "compose_body p a = Inr body"
  shows "\<exists>legs. must p (q_in a) = Inr legs \<and>
     opt_get (opt_get (opt_get (opt_get (own_prop body ''query'') ''function_score'') ''query'')
        ''bool'') ''must'' = JArr legs"
  using assms by (rule compose_body_parts) (simp add: composed_props)

lemma compose_body_aggs:
  assumes "compose_body p a = Inr body"
  shows "own_prop body ''aggs'' =
     (if truthy (includeTimeline_in a)
      then JObj (AList.update ''timeline'' timeline_agg
             (if truthy (includeFacets_in a) then spread facet_aggs else []))
      else if truthy (includeFacets_in a) then facet_aggs else JUndefined)"
  using assms
  by (rule compose_body_parts) (simp add: composed_props js_or_def spread_def facet_aggs_def)

lemma paginate_prop:
  "own_prop (paginate a pitId ka body) k =
     (if k = ''search_after'' \<and> (\<exists>c. cursor_in a = JArr c \<and> c \<noteq> []) then cursor_in a
      else if k = ''pit'' then JObj [(''id'', pitId), (''keep_alive'', ka)]
      else own_prop body k)"
  by (auto simp: paginate_def Let_def own_prop_update split: jsval.splits)

lemma compose_body_levels_scalar:
  "\<not> nullish v \<Longrightarrow> \<not> isArray v \<Longrightarrow>
   compose_body p (a\<lparr>levels_in := v\<rparr>) = compose_body p (a\<lparr>levels_in := JArr [v]\<rparr>)"
  by (simp add: compose_body_def filter_clauses_levels_scalar add_timeline_def add_facets_def
        add_highlight_def split: sum.splits)

lemma compose_body_services_scalar:
  "\<not> nullish v \<Longrightarrow> \<not> isArray v \<Longrightarrow>
   compose_body p (a\<lparr>services_in := v\<rparr>) = compose_body p (a\<lparr>services_in := JArr [v]\<rparr>)"
  by (simp add: compose_body_def filter_clauses_services_scalar add_timeline_def add_facets_def
        add_highlight_def split: sum.splits)

subsection \<open>The search handler\<close>

lemma open_pit_unbound:
  "open_pit es ka = ([], Inl (ReferenceError ''INDEX is not defined''))"
  by (simp add: open_pit_def INDEX_def)

lemma search_try_throw:
  "compose_body p (destructure rb) = Inl e \<Longrightarrow> search_try p es rb = ([], Inl e)"
  by (simp add: search_try_def Let_def)

lemma search_try_no_pit:
  "\<not> truthy (pit_id (destructure rb)) \<Longrightarrow> \<exists>e. search_try p es rb = ([], Inl e)"
  by (auto simp: search_try_def Let_def open_pit_unbound split: sum.splits)

lemma search_try_pit:
  "truthy (pit_id (destructure rb)) \<Longrightarrow> compose_body p (destructure rb) = Inr body \<Longrightarrow>
   sent = JObj [(''body'', JObj (paginate (destructure rb) (pit_id (destructure rb))
                                  (keepAlive (destructure rb)) body))] \<Longrightarrow>
   search_try p es rb =
     ([Search sent],
      case search es sent of
        Inl e \<Rightarrow> Inl e
      | Inr resp \<Rightarrow> project resp (pit_id (destructure rb)) (keepAlive (destructure rb)))"
  by (auto simp: search_try_def Let_def split: sum.splits)

lemma search_try_cases:
  obtains (throw) e where "search_try p es rb = ([], Inl e)"
  | (rejected) body sent e where
      "compose_body p (destructure rb) = Inr body" "truthy (pit_id (destructure rb))"
      "sent = JObj [(''body'', JObj (paginate (destructure rb) (pit_id (destructure rb))
                                  (keepAlive (destructure rb)) body))]"
      "search es sent = Inl e" "search_try p es rb = ([Search sent], Inl e)"
  | (answered) body sent resp where
      "compose_body p (destructure rb) = Inr body" "truthy (pit_id (destructure rb))"
      "sent = JObj [(''body'', JObj (paginate (destructure rb) (pit_id (destructure rb))
                                  (keepAlive (destructure rb)) body))]"
      "search es sent = Inr resp"
      "search_try p es rb =
         ([Search sent], project resp (pit_id (destructure rb)) (keepAlive (destructure rb)))"
proof (cases "compose_body p (destructure rb)")
  case (Inl e)
  then show ?thesis using throw search_try_throw by blast
next
  case body: (Inr body)
  show ?thesis
  proof (cases "truthy (pit_id (destructure rb))")
    case False
    then show ?thesis using throw search_try_no_pit by blast
  next
    case True
    define sent where "sent = JObj [(''body'', JObj (paginate (destructure rb)
        (pit_id (destructure rb)) (keepAlive (destructure rb)) body))]"
    show ?thesis
    proof (cases "search es sent")
      case (Inl e)
      then show ?thesis
        using rejected [OF body True sent_def] search_try_pit [OF True body sent_def, of es]
        by simp
    next
      case (Inr resp)
      then show ?thesis
        using answered [OF body True sent_def] search_try_pit [OF True body sent_def, of es]
        by simp
    qed
  qed
qed

lemma post_search_calls: "fst (post_search p es rb) = fst (search_try p es rb)"
  by (auto simp: post_search_def split: prod.splits sum.splits)

lemma post_search_response:
  "snd (post_search p es rb) =
     (case snd (search_try p es rb) of
        Inr out \<Rightarrow> \<lparr> status = JNum (Fin 200), json = out \<rparr>
      | Inl err \<Rightarrow> catch_response ''Search error'' err)"
  by (auto simp: post_search_def split: prod.splits sum.splits)

lemma catch_response_not_ok: "opt_get (json (catch_response fb err)) ''ok'' = JBool False"
  by (simp add: catch_response_def own_prop_def)

lemma project_Inr:
  assumes "project resp pitId ka = Inr out"
  obtains hs hits where "raw_hits resp = JArr hs" "map_hits hs = Inr hits"
    "out = JObj
       [(''ok'', JBool True),
        (''total'', js_or (opt_get (opt_get (opt_get resp ''body'') ''hits'') ''total'')
                      (opt_get (opt_get resp ''hits'') ''total'')),
        (''pit'', JObj [(''id'', js_or (opt_get (opt_get resp ''body'') ''pit_id'') pitId),
                        (''keep_alive'', ka)]),
        (''hits'', JArr hits),
        (''facets'', facets resp),
        (''timeline'', timeline resp),
        (''nextCursor'', nextCursor hits)]"
  using assms by (auto simp: project_def split: if_splits jsval.splits sum.splits)

lemma paginate_keeps:
  "k \<noteq> ''search_after'' \<Longrightarrow> k \<noteq> ''pit'' \<Longrightarrow>
   own_prop (paginate a pitId ka body) k = own_prop body k"
  by (simp add: paginate_prop)

lemma post_search_sent:
  assumes "Search sent \<in> set (fst (post_search p es rb))"
  obtains body where "compose_body p (destructure rb) = Inr body"
    "truthy (pit_id (destructure rb))"
    "opt_get sent ''body'' = JObj (paginate (destructure rb) (pit_id (destructure rb))
                                  (keepAlive (destructure rb)) body)"
    "fst (post_search p es rb) = [Search sent]"
proof (cases rule: search_try_cases [of p es rb])
  case (throw e)
  then show ?thesis using assms by (simp add: post_search_calls)
next
  case (rejected body sent' e)
  then show ?thesis using assms that [of body] by (simp add: post_search_calls own_prop_def)
next
  case (answered body sent' resp)
  then show ?thesis using assms that [of body] by (simp add: post_search_calls own_prop_def)
qed

lemma post_search_ok:
  assumes "post_search p es rb = (calls, r)" and "opt_get (json r) ''ok'' = JBool True"
  obtains body sent resp out where
    "compose_body p (destructure rb) = Inr body" "truthy (pit_id (destructure rb))"
    "sent = JObj [(''body'', JObj (paginate (destructure rb) (pit_id (destructure rb))
                                  (keepAlive (destructure rb)) body))]"
    "search es sent = Inr resp"
    "project resp (pit_id (destructure rb)) (keepAlive (destructure rb)) = Inr out"
    "calls = [Search sent]" "r = \<lparr> status = JNum (Fin 200), json = out \<rparr>"
proof (cases rule: search_try_cases [of p es rb])
  case (throw e)
  then have "r = catch_response ''Search error'' e"
    using assms(1) by (simp add: post_search_def)
  then show ?thesis using assms(2) by (simp add: catch_response_not_ok)
next
  case (rejected body sent e)
  then have "r = catch_response ''Search error'' e"
    using assms(1) by (simp add: post_search_def)
  then show ?thesis using assms(2) by (simp add: catch_response_not_ok)
next
  case (answered body sent resp)
  show ?thesis
  proof (cases "project resp (pit_id (destructure rb)) (keepAlive (destructure rb))")
    case (Inl e)
    then have "r = catch_response ''Search error'' e"
      using assms(1) answered(5) by (simp add: post_search_def)
    then show ?thesis using assms(2) by (simp add: catch_response_not_ok)
  next
    case (Inr out)
    then have "calls = [Search sent]" "r = \<lparr> status = JNum (Fin 200), json = out \<rparr>"
      using assms(1) answered(5) by (auto simp: post_search_def)
    then show ?thesis using that [OF answered(1-4) Inr] by blast
  qed
qed

lemma body_size_le: "body_size p v = Inr sz \<Longrightarrow> num_le sz (Fin 1000)"
  by (cases "Number_js p v"; cases "projr (Number_js p v)")
     (auto simp: body_size_def num_or_def)

lemma body_size_Fin:
  "Number_js p v = Inr (Fin s) \<Longrightarrow> s \<noteq> 0 \<Longrightarrow> body_size p v = Inr (Fin (min s 1000))"
  by (simp add: body_size_def num_or_def)

lemma body_size_default:
  "Number_js p v = Inr NaN \<or> Number_js p v = Inr (Fin 0) \<Longrightarrow> body_size p v = Inr (Fin 50)"
  by (auto simp: body_size_def num_or_def)

lemma body_size_Number:
  "body_size p v = Inr sz \<Longrightarrow> \<exists>n. Number_js p v = Inr n"
  by (auto simp: body_size_def split: sum.splits)

lemma size_in_absent:
  "opt_get rb ''size'' = JUndefined \<Longrightarrow> size_in (destructure rb) = JNum (Fin 100)"
  by (simp add: destructure_def Let_def dflt_def js_or_def own_prop_def)

lemma compose_body_plain:
  "q_in a = JStr s \<Longrightarrow> \<not> nullish (time_in a) \<Longrightarrow> size_in a = JNum n \<Longrightarrow>
   \<exists>body. compose_body p a = Inr body"
  using compose_body_Inr [of p a s n] by simp

lemma sized_request_args:
  "q_in (destructure (sized_request s)) = JStr default_q"
  "\<not> nullish (time_in (destructure (sized_request s)))"
  "size_in (destructure (sized_request s)) = JNum (Fin s)"
  "truthy (pit_id (destructure (sized_request s)))"
  by (simp_all add: sized_request_def page_request_def destructure_def pit_id_def js_or_def
        dflt_def own_prop_def Let_def nullish_def)

subsection \<open>The response\<close>

lemma js_or_undefined: "(js_or v JUndefined \<noteq> JUndefined) = truthy v"
  by (cases v) (auto simp: js_or_def)

lemma facets_present: "(facets resp \<noteq> JUndefined) = truthy (aggregations resp)"
  by (simp add: facets_def)

lemma timeline_present:
  "(timeline resp \<noteq> JUndefined) =
   truthy (opt_get (opt_get (aggregations resp) ''timeline'') ''buckets'')"
  by (simp add: timeline_def js_or_undefined)

lemma requested_aggs:
  assumes "compose_body p a = Inr body"
  shows "(opt_get (own_prop body ''aggs'') ''by_service'' \<noteq> JUndefined) = truthy (includeFacets_in a)"
    and "(opt_get (own_prop body ''aggs'') ''by_level'' \<noteq> JUndefined) = truthy (includeFacets_in a)"
    and "(opt_get (own_prop body ''aggs'') ''by_error_code'' \<noteq> JUndefined) = truthy (includeFacets_in a)"
    and "(opt_get (own_prop body ''aggs'') ''timeline'' \<noteq> JUndefined) = truthy (includeTimeline_in a)"
  unfolding compose_body_aggs [OF assms]
  by (simp_all add: own_prop_update spread_def facet_aggs_def timeline_agg_def)
     (simp_all add: own_prop_def)

lemma search_try_Inr_ok:
  "search_try p es rb = (calls, Inr out) \<Longrightarrow> opt_get out ''ok'' = JBool True"
  by (cases rule: search_try_cases [of p es rb]) (auto elim!: project_Inr simp: own_prop_def)

lemma post_search_failed:
  assumes "post_search p es rb = (calls, r)" and "opt_get (json r) ''ok'' \<noteq> JBool True"
  shows "\<exists>err. search_try p es rb = (calls, Inl err) \<and> r = catch_response ''Search error'' err"
proof (cases "snd (search_try p es rb)")
  case (Inl err)
  then show ?thesis
    using assms(1) by (auto simp: post_search_def split: prod.splits sum.splits)
next
  case (Inr out)
  then have "search_try p es rb = (calls, Inr out)" "json r = out"
    using assms(1) by (auto simp: post_search_def split: prod.splits sum.splits)
  then show ?thesis using assms(2) search_try_Inr_ok by metis
qed

subsection \<open>The lexical legs\<close>

lemma replace_unsafe_length: "length (replace_unsafe s) = length s"
  by (simp add: replace_unsafe_def)

lemma replace_unsafe_nth:
  "i < length s \<Longrightarrow> replace_unsafe s ! i = (if kept_char (s ! i) then s ! i else CHR 0x20)"
  by (simp add: replace_unsafe_def)

lemma must_legs:
  assumes "must p q = Inr legs"
  shows "\<exists>s lex fz. String_js p q = Inr s \<and> legs = [lex, fz] \<and>
     clause_fields lex =
       [(''message'', 4), (''service'', 1), (''path'', 1), (''error.code'', 1), (''host'', 1)] \<and>
     clause_fields fz = [(''message'', 3), (''path'', 1), (''service'', 1), (''host'', 1)] \<and>
     opt_get (opt_get lex ''simple_query_string'') ''query'' = q \<and>
     opt_get (opt_get fz ''multi_match'') ''query'' = JStr (replace_unsafe s) \<and>
     opt_get (opt_get fz ''multi_match'') ''fuzziness'' = JStr ''AUTO'' \<and>
     opt_get (opt_get fz ''multi_match'') ''prefix_length'' = JNum (Fin 2)"
proof (cases "String_js p q")
  case (Inl e)
  then show ?thesis using assms by (simp add: must_def)
next
  case (Inr s)
  then have "legs =
     [JObj [(''simple_query_string'',
        JObj [(''query'', q), (''fields'', JArr (map JStr lexical_fields)),
              (''default_operator'', JStr ''and'')])],
      JObj [(''multi_match'',
        JObj [(''query'', JStr (replace_unsafe s)), (''fields'', JArr (map JStr fuzzy_fields)),
              (''fuzziness'', JStr ''AUTO''), (''prefix_length'', JNum (Fin 2))])]]"
    using assms by (simp add: must_def)
  then show ?thesis
    using Inr
    by (simp add: lexical_fields_def fuzzy_fields_def field_name_def field_boost_def own_prop_def)
qed

text \<open>The definitions a closed example unfolds.\<close>

lemmas js_defs =
  destructure_def compose_body_def filter_clauses_def terms_clause_def asArray_def nullish_def
  js_or_def dflt_def own_prop_def get_def must_def body_size_def num_or_def rescore_def
  has_own_def not_primitive_def
  facet_aggs_def timeline_agg_def spread_def initial_body_def add_highlight_def add_facets_def
  add_timeline_def search_try_def post_search_def pit_id_def keepAlive_def
  paginate_def open_pit_def INDEX_def ReferenceError_def TypeError_def cannot_read_def
  project_def raw_hits_def project_hit_def aggregations_def facets_def timeline_def nextCursor_def
  buckets_or_empty_def catch_response_def post_close_pit_def default_q_def replace_unsafe_def
  kept_char_def word_char_def space_char_def lexical_fields_def fuzzy_fields_def isArray_def
  example_platform_def example_es_def example_resp_def first_page_def
  page_request_def example_cursor_def sized_request_def quiet_request_def
  no_facets_request_def operator_request_def refused_def gone_def field_name_def field_boost_def
  unprintable_request_def
  Let_def

section \<open>The claims\<close>

text \<open>
  Each subsection takes one claim of the specification: where the claim holds of the code,
  its theorem and an instance of the theorem at a concrete input; where it does not, a
  concrete run that contradicts it, then the statement that does hold.
\<close>

subsection \<open>C1: pagination of the search call\<close>

text \<open>
  C1. With a valid \<^verbatim>\<open>pit.id\<close> and a non-empty cursor the search body carries both (the
  search body of such a request is the subject of C5). For a first-page request a PIT is
  to be opened first and the search made with the id that comes back. The code does not get
  there. For every request with no truthy \<^verbatim>\<open>pit.id\<close> no engine call is made at all and
  the answer is a failure; when the body of such a request is composed (none of
  \<^verbatim>\<open>String(q)\<close>, \<^verbatim>\<open>time.gte\<close> and \<^verbatim>\<open>Number(size)\<close> throws) the handler evaluates the unbound
  \<^verbatim>\<open>INDEX\<close> and the answer is status 500 with the \<^verbatim>\<open>ReferenceError\<close>'s message.
\<close>

theorem first_page_throws:
  assumes "\<not> truthy (pit_id (destructure rb))"
  shows "fst (post_search p es rb) = [] \<and>
         opt_get (json (snd (post_search p es rb))) ''ok'' = JBool False \<and>
         (\<forall>body. compose_body p (destructure rb) = Inr body \<longrightarrow>
            post_search p es rb =
              ([], \<lparr> status = JNum (Fin 500),
                      json = JObj [(''ok'', JBool False),
                                   (''error'', JStr ''INDEX is not defined'')] \<rparr>))"
proof -
  obtain e where e: "search_try p es rb = ([], Inl e)"
    using search_try_no_pit [OF assms] by blast
  then have "post_search p es rb = ([], catch_response ''Search error'' e)"
    by (simp add: post_search_def)
  then have none: "fst (post_search p es rb) = []"
    and failed: "opt_get (json (snd (post_search p es rb))) ''ok'' = JBool False"
    by (simp_all add: catch_response_not_ok)
  have "post_search p es rb =
      ([], \<lparr> status = JNum (Fin 500),
              json = JObj [(''ok'', JBool False), (''error'', JStr ''INDEX is not defined'')] \<rparr>)"
    if "compose_body p (destructure rb) = Inr body" for body
  proof -
    have "search_try p es rb = ([], Inl (ReferenceError ''INDEX is not defined''))"
      using that assms by (simp add: search_try_def Let_def open_pit_unbound)
    then show ?thesis
      by (simp add: post_search_def catch_response_def ReferenceError_def own_prop_def js_or_def)
  qed
  then show ?thesis using none failed by blast
qed

theorem first_page_throws_witness:
  "\<not> truthy (pit_id (destructure first_page)) \<and>
   (\<exists>body. compose_body example_platform (destructure first_page) = Inr body) \<and>
   post_search example_platform (example_es (Inr example_resp)) first_page =
     ([], \<lparr> status = JNum (Fin 500),
             json = JObj [(''ok'', JBool False), (''error'', JStr ''INDEX is not defined'')] \<rparr>)"
proof -
  have args: "q_in (destructure first_page) = JStr ''timeout''"
    "\<not> nullish (time_in (destructure first_page))"
    "size_in (destructure first_page) = JNum (Fin 100)"
    "\<not> truthy (pit_id (destructure first_page))"
    by (simp_all add: first_page_def pit_id_def destructure_def js_or_def dflt_def own_prop_def
          Let_def nullish_def)
  obtain body where b: "compose_body example_platform (destructure first_page) = Inr body"
    using compose_body_plain [OF args(1-3)] by blast
  show ?thesis
    using first_page_throws [OF args(4), of example_platform "example_es (Inr example_resp)"]
      args(4) b
    by blast
qed

subsection \<open>C2: the page size\<close>

text \<open>
  C2 as stated (the effective page size is \<open>min(s, 1000)\<close> and lies in \<open>[1, 1000]\<close>) fails:
  the code takes \<^verbatim>\<open>Math.min(Number(size) || 50, 1000)\<close> and has no lower bound. A request
  with \<^verbatim>\<open>size: -5\<close> sends \<^verbatim>\<open>size: -5\<close> to the engine, and \<^verbatim>\<open>size: 0\<close> sends 50, which is not
  \<open>min(0, 1000)\<close>.
\<close>

theorem size_below_one_passes:
  "map (\<lambda>b. opt_get b ''size'')
     (search_bodies (fst (post_search example_platform (example_es (Inr example_resp))
        (sized_request (- 5))))) = [JNum (Fin (- 5))] \<and>
   \<not> num_le (Fin 1) (Fin (- 5)) \<and>
   map (\<lambda>b. opt_get b ''size'')
     (search_bodies (fst (post_search example_platform (example_es (Inr example_resp))
        (sized_request 0)))) = [JNum (Fin 50)]"
  by (simp add: js_defs sized_request_def)

text \<open>
  C2 as amended: the size of the composed body, and of every search call, is
  \<^verbatim>\<open>Math.min(Number(size) || 50, 1000)\<close>. It is never above 1000; it is \<open>min(s, 1000)\<close> for
  every requested size that reads as a finite number \<open>s\<close> other than zero, hence within
  \<open>[1, 1000]\<close> whenever \<open>s \<ge> 1\<close>; it is 50 when the size reads as zero or as not a number,
  and 100 when the request has no \<^verbatim>\<open>size\<close>. (A body is composed only when
  \<^verbatim>\<open>Number(size)\<close> does not throw: \<open>n\<close> below is the number it returns.)
\<close>

theorem page_size_capped:
  assumes "compose_body p (destructure rb) = Inr body"
  shows "\<exists>n sz. Number_js p (size_in (destructure rb)) = Inr n \<and>
    body_size p (size_in (destructure rb)) = Inr sz \<and>
    own_prop body ''size'' = JNum sz \<and>
    (\<forall>es sent. Search sent \<in> set (fst (post_search p es rb)) \<longrightarrow>
       opt_get (opt_get sent ''body'') ''size'' = JNum sz) \<and>
    num_le sz (Fin 1000) \<and>
    (\<forall>s. n = Fin s \<and> s \<noteq> 0 \<longrightarrow> sz = Fin (min s 1000)) \<and>
    (\<forall>s. n = Fin s \<and> 1 \<le> s \<longrightarrow> num_le (Fin 1) sz) \<and>
    (n = NaN \<or> n = Fin 0 \<longrightarrow> sz = Fin 50) \<and>
    (opt_get rb ''size'' = JUndefined \<longrightarrow> sz = Fin 100)"
proof -
  obtain sz where sz: "body_size p (size_in (destructure rb)) = Inr sz"
    and size: "own_prop body ''size'' = JNum sz"
    using compose_body_size [OF assms] by blast
  obtain n where n: "Number_js p (size_in (destructure rb)) = Inr n"
    using body_size_Number [OF sz] by blast
  have sent: "opt_get (opt_get sent ''body'') ''size'' = JNum sz"
    if "Search sent \<in> set (fst (post_search p es rb))" for es sent
    using that
  proof (rule post_search_sent)
    fix body'
    assume "compose_body p (destructure rb) = Inr body'"
      and "opt_get sent ''body'' = JObj (paginate (destructure rb) (pit_id (destructure rb))
                                  (keepAlive (destructure rb)) body')"
    then show ?thesis using assms size by (simp add: paginate_keeps)
  qed
  have fin: "sz = Fin (min s 1000)" if "n = Fin s" "s \<noteq> 0" for s
    using body_size_Fin [of p "size_in (destructure rb)" s] n sz that by simp
  have ge: "num_le (Fin 1) sz" if "n = Fin s" "1 \<le> s" for s
    using fin [OF that(1)] that(2) by simp
  have dft: "sz = Fin 50" if "n = NaN \<or> n = Fin 0"
    using body_size_default [of p "size_in (destructure rb)"] n sz that by auto
  have absent: "sz = Fin 100" if "opt_get rb ''size'' = JUndefined"
    using size_in_absent [OF that] sz by (simp add: body_size_def num_or_def)
  show ?thesis
    using n sz size sent body_size_le [OF sz] fin ge dft absent by blast
qed

theorem page_size_capped_witness:
  "\<exists>body. compose_body example_platform (destructure (sized_request 5000)) = Inr body \<and>
     own_prop body ''size'' = JNum (Fin 1000) \<and>
     Number_js example_platform (size_in (destructure (sized_request 5000))) = Inr (Fin 5000) \<and>
     body_size example_platform (size_in (destructure (sized_request 5000))) = Inr (Fin 1000) \<and>
     num_le (Fin 1) (Fin 1000) \<and> num_le (Fin 1000) (Fin 1000)"
proof -
  obtain body where b: "compose_body example_platform (destructure (sized_request 5000)) = Inr body"
    using compose_body_plain [OF sized_request_args(1-3)] by blast
  have n: "Number_js example_platform (size_in (destructure (sized_request 5000))) = Inr (Fin 5000)"
    by (simp add: sized_request_args)
  obtain n' sz where
    "Number_js example_platform (size_in (destructure (sized_request 5000))) = Inr n'"
    "body_size example_platform (size_in (destructure (sized_request 5000))) = Inr sz"
    "own_prop body ''size'' = JNum sz"
    "\<forall>s. n' = Fin s \<and> s \<noteq> 0 \<longrightarrow> sz = Fin (min s 1000)"
    using page_size_capped [OF b] by blast
  then show ?thesis
    using b n by auto
qed

subsection \<open>C3: facets and timeline\<close>

text \<open>
  C3 as stated (the facets section is present if and only if \<^verbatim>\<open>includeFacets\<close> was true and
  the engine returned aggregation buckets) fails. A request turns the facets off and leaves
  the timeline on, the search body asks for the timeline aggregation only, and the engine
  answers with that aggregation: the response has a facets section, with three empty lists.
\<close>

theorem facets_without_the_toggle:
  "includeFacets_in (destructure no_facets_request) = JBool False \<and>
   map (\<lambda>b. opt_get b ''aggs'')
     (search_bodies (fst (post_search example_platform (example_es (Inr example_resp))
        no_facets_request))) = [JObj [(''timeline'', timeline_agg)]] \<and>
   opt_get (json (snd (post_search example_platform (example_es (Inr example_resp))
       no_facets_request))) ''facets'' =
     JObj [(''services'', JArr []), (''levels'', JArr []), (''errorCodes'', JArr [])]"
  by (simp add: js_defs)

text \<open>
  C3 as amended: the two toggles decide what the search body asks for, and the engine's
  answer alone decides what the response holds. In every successful response the facets
  section is present if and only if the engine's answer has a truthy
  \<^verbatim>\<open>body.aggregations\<close> (whichever aggregations it holds), and the timeline section if and
  only if \<^verbatim>\<open>body.aggregations.timeline.buckets\<close> is truthy; the search body asks for the three
  facet aggregations if and only if \<^verbatim>\<open>includeFacets\<close> is truthy, and for the timeline
  aggregation if and only if \<^verbatim>\<open>includeTimeline\<close> is truthy.
\<close>

theorem sections_follow_the_engine:
  assumes "post_search p es rb = (calls, r)" and "opt_get (json r) ''ok'' = JBool True"
  shows "\<exists>sent resp. calls = [Search sent] \<and> search es sent = Inr resp \<and>
    (opt_get (json r) ''facets'' \<noteq> JUndefined) = truthy (aggregations resp) \<and>
    (opt_get (json r) ''timeline'' \<noteq> JUndefined) =
       truthy (opt_get (opt_get (aggregations resp) ''timeline'') ''buckets'') \<and>
    (opt_get (opt_get (opt_get sent ''body'') ''aggs'') ''by_service'' \<noteq> JUndefined) =
       truthy (includeFacets_in (destructure rb)) \<and>
    (opt_get (opt_get (opt_get sent ''body'') ''aggs'') ''by_level'' \<noteq> JUndefined) =
       truthy (includeFacets_in (destructure rb)) \<and>
    (opt_get (opt_get (opt_get sent ''body'') ''aggs'') ''by_error_code'' \<noteq> JUndefined) =
       truthy (includeFacets_in (destructure rb)) \<and>
    (opt_get (opt_get (opt_get sent ''body'') ''aggs'') ''timeline'' \<noteq> JUndefined) =
       truthy (includeTimeline_in (destructure rb))"
  using assms
proof (rule post_search_ok)
  fix body sent resp out
  assume body: "compose_body p (destructure rb) = Inr body"
    and sent: "sent = JObj [(''body'', JObj (paginate (destructure rb) (pit_id (destructure rb))
                                  (keepAlive (destructure rb)) body))]"
    and resp: "search es sent = Inr resp"
    and out: "project resp (pit_id (destructure rb)) (keepAlive (destructure rb)) = Inr out"
    and calls: "calls = [Search sent]"
    and r: "r = \<lparr> status = JNum (Fin 200), json = out \<rparr>"
  have aggs: "opt_get (opt_get sent ''body'') ''aggs'' = own_prop body ''aggs''"
    by (simp add: sent own_prop_def [of "[_]"] paginate_keeps)
  have "opt_get (json r) ''facets'' = facets resp" "opt_get (json r) ''timeline'' = timeline resp"
    using out r by (auto elim!: project_Inr simp: own_prop_def)
  then show ?thesis
    using calls resp aggs requested_aggs [OF body] facets_present timeline_present
    by simp
qed

theorem sections_follow_the_engine_witness:
  "opt_get (json (snd (post_search example_platform (example_es (Inr example_resp))
       no_facets_request))) ''ok'' = JBool True \<and>
   (\<exists>sent. fst (post_search example_platform (example_es (Inr example_resp)) no_facets_request)
        = [Search sent] \<and>
      search (example_es (Inr example_resp)) sent = Inr example_resp \<and>
      truthy (aggregations example_resp) \<and>
      opt_get (json (snd (post_search example_platform (example_es (Inr example_resp))
         no_facets_request))) ''facets'' \<noteq> JUndefined \<and>
      opt_get (json (snd (post_search example_platform (example_es (Inr example_resp))
         no_facets_request))) ''timeline'' \<noteq> JUndefined \<and>
      opt_get (opt_get (opt_get sent ''body'') ''aggs'') ''by_service'' = JUndefined \<and>
      opt_get (opt_get (opt_get sent ''body'') ''aggs'') ''timeline'' \<noteq> JUndefined)"
proof -
  have ok: "opt_get (json (snd (post_search example_platform (example_es (Inr example_resp))
       no_facets_request))) ''ok'' = JBool True"
    by (simp add: js_defs)
  have tr: "truthy (aggregations example_resp)"
    "truthy (opt_get (opt_get (aggregations example_resp) ''timeline'') ''buckets'')"
    by (simp_all add: aggregations_def example_resp_def own_prop_def)
  have fl: "\<not> truthy (includeFacets_in (destructure no_facets_request))"
    "truthy (includeTimeline_in (destructure no_facets_request))"
    by (simp_all add: no_facets_request_def page_request_def destructure_def js_or_def dflt_def
          own_prop_def Let_def)
  have se: "search (example_es (Inr example_resp)) sent = Inr resp \<Longrightarrow> resp = example_resp"
    for sent resp by (simp add: example_es_def)
  show ?thesis
    using sections_follow_the_engine [OF prod.collapse [symmetric] ok] ok tr fl se
    by (metis (no_types, lifting))
qed

subsection \<open>C4: the fuzzy fallback leg\<close>

text \<open>
  C4 as stated (the fuzzy leg matches over the same field set as the structured leg) fails:
  the structured leg lists \<^verbatim>\<open>error.code\<close> and the fuzzy leg does not.
\<close>

theorem fuzzy_leg_lacks_error_code:
  "map_sum id (map clause_fields) (must example_platform (JStr ''timeout'')) =
     Inr [[(''message'', 4), (''service'', 1), (''path'', 1), (''error.code'', 1), (''host'', 1)],
          [(''message'', 3), (''path'', 1), (''service'', 1), (''host'', 1)]] \<and>
   ''error.code'' \<in>
     set (map fst (clause_fields (hd (projr (must example_platform (JStr ''timeout'')))))) \<and>
   ''error.code'' \<notin>
     set (map fst (clause_fields (last (projr (must example_platform (JStr ''timeout''))))))"
  by (simp add: js_defs)

text \<open>
  C4 as amended: for every query \<open>q\<close> the composed query has two required legs. The fuzzy
  leg matches over \<^verbatim>\<open>message\<close>, \<^verbatim>\<open>path\<close>, \<^verbatim>\<open>service\<close> and \<^verbatim>\<open>host\<close>, which are the fields
  of the structured leg without \<^verbatim>\<open>error.code\<close>, with \<^verbatim>\<open>message\<close> at weight 3 instead of 4
  and the others at weight 1 in both; it queries \<^verbatim>\<open>String(q)\<close> with every character that is
  neither a word character, nor white space, nor a double quote replaced by one space (so
  the length is kept), with fuzziness \<^verbatim>\<open>AUTO\<close> and prefix length 2. Every search call
  carries this query. (A body is composed only when \<^verbatim>\<open>String(q)\<close> does not throw: \<open>s\<close>
  below is the string it returns.)
\<close>

theorem fuzzy_leg:
  assumes "compose_body p a = Inr body"
  shows "\<exists>s lex fz.
     String_js p (q_in a) = Inr s \<and>
     opt_get (opt_get (opt_get (opt_get (own_prop body ''query'') ''function_score'') ''query'')
        ''bool'') ''must'' = JArr [lex, fz] \<and>
     clause_fields lex =
       [(''message'', 4), (''service'', 1), (''path'', 1), (''error.code'', 1), (''host'', 1)] \<and>
     clause_fields fz = [(''message'', 3), (''path'', 1), (''service'', 1), (''host'', 1)] \<and>
     set (map fst (clause_fields fz)) = set (map fst (clause_fields lex)) - {''error.code''} \<and>
     opt_get (opt_get lex ''simple_query_string'') ''query'' = q_in a \<and>
     opt_get (opt_get fz ''multi_match'') ''query'' = JStr (replace_unsafe s) \<and>
     opt_get (opt_get fz ''multi_match'') ''fuzziness'' = JStr ''AUTO'' \<and>
     opt_get (opt_get fz ''multi_match'') ''prefix_length'' = JNum (Fin 2) \<and>
     length (replace_unsafe s) = length s \<and>
     (\<forall>i < length s. replace_unsafe s ! i = (if kept_char (s ! i) then s ! i else CHR 0x20)) \<and>
     (\<forall>es rb sent. a = destructure rb \<and> Search sent \<in> set (fst (post_search p es rb)) \<longrightarrow>
        opt_get (opt_get sent ''body'') ''query'' = own_prop body ''query'')"
proof -
  obtain legs where must: "must p (q_in a) = Inr legs"
    and path0: "opt_get (opt_get (opt_get (opt_get (own_prop body ''query'') ''function_score'')
        ''query'') ''bool'') ''must'' = JArr legs"
    using compose_body_must [OF assms] by blast
  obtain s lex fz where legs: "String_js p (q_in a) = Inr s" "legs = [lex, fz]"
    "clause_fields lex =
       [(''message'', 4), (''service'', 1), (''path'', 1), (''error.code'', 1), (''host'', 1)]"
    "clause_fields fz = [(''message'', 3), (''path'', 1), (''service'', 1), (''host'', 1)]"
    "opt_get (opt_get lex ''simple_query_string'') ''query'' = q_in a"
    "opt_get (opt_get fz ''multi_match'') ''query'' = JStr (replace_unsafe s)"
    "opt_get (opt_get fz ''multi_match'') ''fuzziness'' = JStr ''AUTO''"
    "opt_get (opt_get fz ''multi_match'') ''prefix_length'' = JNum (Fin 2)"
    using must_legs [OF must] by blast
  have names: "set (map fst (clause_fields fz)) = set (map fst (clause_fields lex)) - {''error.code''}"
    unfolding legs(3,4) by auto
  have sent: "opt_get (opt_get sent ''body'') ''query'' = own_prop body ''query''"
    if "a = destructure rb" "Search sent \<in> set (fst (post_search p es rb))" for es rb sent
    using that(2)
  proof (rule post_search_sent)
    fix body'
    assume "compose_body p (destructure rb) = Inr body'"
      and "opt_get sent ''body'' = JObj (paginate (destructure rb) (pit_id (destructure rb))
                                  (keepAlive (destructure rb)) body')"
    then show ?thesis using assms that(1) by (simp add: paginate_keeps)
  qed
  have path: "opt_get (opt_get (opt_get (opt_get (own_prop body ''query'') ''function_score'')
        ''query'') ''bool'') ''must'' = JArr [lex, fz]"
    using path0 legs(2) by simp
  have nth: "\<forall>i < length s. replace_unsafe s ! i = (if kept_char (s ! i) then s ! i else CHR 0x20)"
    using replace_unsafe_nth by blast
  have calls: "\<forall>es rb sent. a = destructure rb \<and> Search sent \<in> set (fst (post_search p es rb)) \<longrightarrow>
        opt_get (opt_get sent ''body'') ''query'' = own_prop body ''query''"
    using sent by blast
  show ?thesis
  proof (intro exI conjI)
    show "String_js p (q_in a) = Inr s" by (rule legs(1))
    show "opt_get (opt_get (opt_get (opt_get (own_prop body ''query'') ''function_score'')
        ''query'') ''bool'') ''must'' = JArr [lex, fz]" by (rule path)
  qed (rule legs names replace_unsafe_length nth calls)+
qed

theorem fuzzy_leg_witness:
  "\<exists>body lex fz. compose_body example_platform (destructure operator_request) = Inr body \<and>
     String_js example_platform (q_in (destructure operator_request)) = Inr ''disk+full | (io)'' \<and>
     opt_get (opt_get (opt_get (opt_get (own_prop body ''query'') ''function_score'') ''query'')
        ''bool'') ''must'' = JArr [lex, fz] \<and>
     clause_fields fz = [(''message'', 3), (''path'', 1), (''service'', 1), (''host'', 1)] \<and>
     opt_get (opt_get fz ''multi_match'') ''query'' = JStr ''disk full    io ''"
proof -
  have args: "q_in (destructure operator_request) = JStr ''disk+full | (io)''"
    "\<not> nullish (time_in (destructure operator_request))"
    "size_in (destructure operator_request) = JNum (Fin 100)"
    by (simp_all add: operator_request_def page_request_def destructure_def js_or_def dflt_def
          own_prop_def Let_def nullish_def)
  obtain body where b: "compose_body example_platform (destructure operator_request) = Inr body"
    using compose_body_plain [OF args] by blast
  have str: "String_js example_platform (q_in (destructure operator_request)) =
      Inr ''disk+full | (io)''"
    by (simp add: args)
  have q: "replace_unsafe ''disk+full | (io)'' = ''disk full    io ''"
    by (simp add: replace_unsafe_def kept_char_def word_char_def space_char_def)
  obtain s lex fz where
    "String_js example_platform (q_in (destructure operator_request)) = Inr s"
    "opt_get (opt_get (opt_get (opt_get (own_prop body ''query'') ''function_score'') ''query'')
        ''bool'') ''must'' = JArr [lex, fz]"
    "clause_fields fz = [(''message'', 3), (''path'', 1), (''service'', 1), (''host'', 1)]"
    "opt_get (opt_get fz ''multi_match'') ''query'' = JStr (replace_unsafe s)"
    using fuzzy_leg [OF b] by (elim exE conjE) (rule that)
  then show ?thesis
    using b q str by (intro exI [of _ body] exI [of _ lex] exI [of _ fz]) simp
qed

subsection \<open>C5: a cursor and its PIT\<close>

text \<open>
  C5 as stated (a cursor that is not paired with the PIT id that produced it is rejected or
  ignored) fails. The engine answers a page under PIT \<open>A\<close>, whose last hit gives the next
  cursor; a second request sends that cursor with PIT \<open>B\<close>: the gateway forwards it as
  \<^verbatim>\<open>search_after\<close> with \<^verbatim>\<open>pit.id\<close> \<open>B\<close> and answers \<^verbatim>\<open>ok: true\<close>.
\<close>

theorem mismatched_cursor_forwarded:
  "opt_get (json (snd (post_search example_platform (example_es (Inr example_resp))
       (page_request ''A'' [])))) ''nextCursor'' = example_cursor \<and>
   opt_get (opt_get (json (snd (post_search example_platform (example_es (Inr example_resp))
       (page_request ''A'' [])))) ''pit'') ''id'' = JStr ''A'' \<and>
   map (\<lambda>b. (opt_get (opt_get b ''pit'') ''id'', opt_get b ''search_after''))
     (search_bodies (fst (post_search example_platform (example_es (Inr example_resp))
        (page_request ''B'' [(''cursor'', example_cursor)])))) = [(JStr ''B'', example_cursor)] \<and>
   opt_get (json (snd (post_search example_platform (example_es (Inr example_resp))
       (page_request ''B'' [(''cursor'', example_cursor)])))) ''ok'' = JBool True"
  by (simp add: js_defs)

text \<open>
  C5 as amended: the gateway keeps no record of which PIT produced a cursor. For every
  request with a truthy \<^verbatim>\<open>pit.id\<close> whose body is composed (none of \<^verbatim>\<open>String(q)\<close>,
  \<^verbatim>\<open>time.gte\<close> and \<^verbatim>\<open>Number(size)\<close> throws) it makes exactly one engine call, the search,
  whose body carries the supplied \<^verbatim>\<open>pit.id\<close> and carries the cursor as \<^verbatim>\<open>search_after\<close>
  whenever the cursor is a non-empty array; a cursor is left out only when it is no array
  or is empty. When composing the body throws, no engine call is made and the thrown value
  is answered through the catch block.
\<close>

theorem cursor_forwarded:
  assumes "truthy (pit_id (destructure rb))"
  shows "(\<forall>body. compose_body p (destructure rb) = Inr body \<longrightarrow>
           (\<exists>sent. fst (post_search p es rb) = [Search sent] \<and>
              opt_get (opt_get (opt_get sent ''body'') ''pit'') ''id'' = pit_id (destructure rb) \<and>
              opt_get (opt_get sent ''body'') ''search_after'' =
                (if isArray (cursor_in (destructure rb)) \<and> cursor_in (destructure rb) \<noteq> JArr []
                 then cursor_in (destructure rb) else JUndefined))) \<and>
         (\<forall>e. compose_body p (destructure rb) = Inl e \<longrightarrow>
            post_search p es rb = ([], catch_response ''Search error'' e))"
proof (intro conjI allI impI)
  fix body
  assume body: "compose_body p (destructure rb) = Inr body"
  define sent where "sent = JObj [(''body'', JObj (paginate (destructure rb)
        (pit_id (destructure rb)) (keepAlive (destructure rb)) body))]"
  have "fst (search_try p es rb) = [Search sent]"
    using search_try_pit [OF assms body sent_def, of es] by simp
  then have "fst (post_search p es rb) = [Search sent]"
    by (simp add: post_search_calls)
  moreover have "opt_get (opt_get (opt_get sent ''body'') ''pit'') ''id'' = pit_id (destructure rb)"
    by (simp add: sent_def own_prop_def [of "[_]"] paginate_prop)
       (simp add: own_prop_def)
  moreover have "opt_get (opt_get sent ''body'') ''search_after'' =
             (if isArray (cursor_in (destructure rb)) \<and> cursor_in (destructure rb) \<noteq> JArr []
              then cursor_in (destructure rb) else JUndefined)"
    using compose_body_no_pagination [OF body]
    by (auto simp: sent_def own_prop_def [of "[_]"] paginate_prop isArray_def split: jsval.splits)
  ultimately show "\<exists>sent. fst (post_search p es rb) = [Search sent] \<and>
      opt_get (opt_get (opt_get sent ''body'') ''pit'') ''id'' = pit_id (destructure rb) \<and>
      opt_get (opt_get sent ''body'') ''search_after'' =
        (if isArray (cursor_in (destructure rb)) \<and> cursor_in (destructure rb) \<noteq> JArr []
         then cursor_in (destructure rb) else JUndefined)"
    by blast
next
  fix e
  assume "compose_body p (destructure rb) = Inl e"
  then show "post_search p es rb = ([], catch_response ''Search error'' e)"
    by (simp add: post_search_def search_try_throw)
qed

theorem cursor_forwarded_witness:
  "truthy (pit_id (destructure (page_request ''A'' [(''cursor'', example_cursor)]))) \<and>
   (\<exists>body. compose_body example_platform
             (destructure (page_request ''A'' [(''cursor'', example_cursor)])) = Inr body) \<and>
   (\<exists>sent. fst (post_search example_platform (example_es (Inr example_resp))
                 (page_request ''A'' [(''cursor'', example_cursor)])) = [Search sent] \<and>
       opt_get (opt_get (opt_get sent ''body'') ''pit'') ''id'' = JStr ''A'' \<and>
       opt_get (opt_get sent ''body'') ''search_after'' = example_cursor) \<and>
   compose_body example_platform (destructure unprintable_request) = Inl not_primitive \<and>
   post_search example_platform (example_es (Inr example_resp)) unprintable_request =
     ([], \<lparr> status = JNum (Fin 500),
             json = JObj [(''ok'', JBool False),
                          (''error'', JStr ''Cannot convert object to primitive value'')] \<rparr>)"
proof -
  have args: "q_in (destructure (page_request ''A'' [(''cursor'', example_cursor)])) = JStr default_q"
    "\<not> nullish (time_in (destructure (page_request ''A'' [(''cursor'', example_cursor)])))"
    "size_in (destructure (page_request ''A'' [(''cursor'', example_cursor)])) = JNum (Fin 100)"
    "truthy (pit_id (destructure (page_request ''A'' [(''cursor'', example_cursor)])))"
    "pit_id (destructure (page_request ''A'' [(''cursor'', example_cursor)])) = JStr ''A''"
    "cursor_in (destructure (page_request ''A'' [(''cursor'', example_cursor)])) = example_cursor"
    by (simp_all add: page_request_def pit_id_def destructure_def js_or_def dflt_def own_prop_def
          Let_def nullish_def)
  obtain body where b: "compose_body example_platform
      (destructure (page_request ''A'' [(''cursor'', example_cursor)])) = Inr body"
    using compose_body_plain [OF args(1-3)] by blast
  have c: "isArray example_cursor \<and> example_cursor \<noteq> JArr []"
    by (simp add: example_cursor_def isArray_def)
  have u: "truthy (pit_id (destructure unprintable_request))"
    "compose_body example_platform (destructure unprintable_request) = Inl not_primitive"
    by (simp_all add: unprintable_request_def page_request_def pit_id_def destructure_def js_or_def
          dflt_def own_prop_def Let_def compose_body_def must_def has_own_def)
  have "post_search example_platform (example_es (Inr example_resp)) unprintable_request =
      ([], catch_response ''Search error'' not_primitive)"
    using cursor_forwarded [OF u(1), of example_platform "example_es (Inr example_resp)"] u(2)
    by blast
  then have r: "post_search example_platform (example_es (Inr example_resp)) unprintable_request =
     ([], \<lparr> status = JNum (Fin 500),
             json = JObj [(''ok'', JBool False),
                          (''error'', JStr ''Cannot convert object to primitive value'')] \<rparr>)"
    by (simp add: catch_response_def not_primitive_def TypeError_def own_prop_def js_or_def)
  show ?thesis
    using cursor_forwarded [OF args(4), of example_platform "example_es (Inr example_resp)"]
      args(4,5,6) b c u(2) r
    by (auto simp del: truthy.simps)
qed

subsection \<open>C6: the next cursor\<close>

text \<open>
  C6. In every successful search response (\<^verbatim>\<open>ok: true\<close>), \<^verbatim>\<open>nextCursor\<close> is the
  \<^verbatim>\<open>sort\<close> of the last element of \<^verbatim>\<open>hits\<close> when \<^verbatim>\<open>hits\<close> is non-empty, and \<^verbatim>\<open>null\<close> when
  it is empty.
\<close>

theorem next_cursor_is_last_sort:
  assumes "post_search p es rb = (calls, r)" and "opt_get (json r) ''ok'' = JBool True"
  shows "\<exists>hits. opt_get (json r) ''hits'' = JArr hits \<and>
           opt_get (json r) ''nextCursor'' =
             (if hits = [] then JNull else opt_get (last hits) ''sort'')"
  using assms
proof (rule post_search_ok)
  fix resp out
  assume "project resp (pit_id (destructure rb)) (keepAlive (destructure rb)) = Inr out"
    and r: "r = \<lparr> status = JNum (Fin 200), json = out \<rparr>"
  then obtain hits where "out = JObj
       [(''ok'', JBool True),
        (''total'', js_or (opt_get (opt_get (opt_get resp ''body'') ''hits'') ''total'')
                      (opt_get (opt_get resp ''hits'') ''total'')),
        (''pit'', JObj [(''id'', js_or (opt_get (opt_get resp ''body'') ''pit_id'')
                                   (pit_id (destructure rb))),
                        (''keep_alive'', keepAlive (destructure rb))]),
        (''hits'', JArr hits),
        (''facets'', facets resp),
        (''timeline'', timeline resp),
        (''nextCursor'', nextCursor hits)]"
    by (auto elim: project_Inr)
  then show ?thesis
    using r by (simp add: own_prop_def nextCursor_def)
qed

theorem next_cursor_is_last_sort_witness:
  "opt_get (json (snd (post_search example_platform (example_es (Inr example_resp))
       (page_request ''A'' [])))) ''ok'' = JBool True \<and>
   (\<exists>hits. opt_get (json (snd (post_search example_platform (example_es (Inr example_resp))
               (page_request ''A'' [])))) ''hits'' = JArr hits \<and>
       hits \<noteq> [] \<and>
       opt_get (json (snd (post_search example_platform (example_es (Inr example_resp))
               (page_request ''A'' [])))) ''nextCursor'' = opt_get (last hits) ''sort'') \<and>
   opt_get (json (snd (post_search example_platform (example_es (Inr example_resp))
       (page_request ''A'' [])))) ''nextCursor'' = example_cursor"
proof -
  have ok: "opt_get (json (snd (post_search example_platform (example_es (Inr example_resp))
       (page_request ''A'' [])))) ''ok'' = JBool True"
    by (simp add: js_defs)
  have len: "opt_get (json (snd (post_search example_platform (example_es (Inr example_resp))
       (page_request ''A'' [])))) ''nextCursor'' = example_cursor"
    by (simp add: js_defs)
  show ?thesis
    using next_cursor_is_last_sort [OF prod.collapse [symmetric] ok] ok len
    by (auto simp: example_cursor_def split: if_splits)
qed

subsection \<open>C7: closing a PIT\<close>

text \<open>
  C7. A close-pit request whose body has no \<^verbatim>\<open>id\<close> (or a falsy one: the code tests
  \<^verbatim>\<open>!id\<close>) is answered with status 400 and \<^verbatim>\<open>{ok: false, error: "Missing PIT id"}\<close>, and
  no engine call is made. With an id the close-PIT call is made, with that id, and when it
  succeeds the answer is status 200 with \<^verbatim>\<open>{ok: true}\<close>.
\<close>

theorem close_pit_needs_id:
  "(\<not> truthy (opt_get rb ''id'') \<longrightarrow>
      post_close_pit es rb =
        ([], \<lparr> status = JNum (Fin 400),
                json = JObj [(''ok'', JBool False), (''error'', JStr ''Missing PIT id'')] \<rparr>)) \<and>
   (truthy (opt_get rb ''id'') \<longrightarrow>
      fst (post_close_pit es rb) =
        [ClosePointInTime (JObj [(''body'', JObj [(''id'', opt_get rb ''id'')])])] \<and>
      (\<forall>done. closePointInTime es (JObj [(''body'', JObj [(''id'', opt_get rb ''id'')])]) = Inr done \<longrightarrow>
         snd (post_close_pit es rb) =
           \<lparr> status = JNum (Fin 200), json = JObj [(''ok'', JBool True)] \<rparr>))"
  by (auto simp: post_close_pit_def Let_def split: sum.splits)

theorem close_pit_needs_id_witness:
  "\<not> truthy (opt_get (JObj []) ''id'') \<and>
   post_close_pit (example_es (Inr (JObj []))) (JObj []) =
     ([], \<lparr> status = JNum (Fin 400),
             json = JObj [(''ok'', JBool False), (''error'', JStr ''Missing PIT id'')] \<rparr>) \<and>
   truthy (opt_get (JObj [(''id'', JStr ''A'')]) ''id'') \<and>
   closePointInTime (example_es (Inr (JObj []))) (JObj [(''body'', JObj [(''id'', JStr ''A'')])])
     = Inr (JObj []) \<and>
   post_close_pit (example_es (Inr (JObj []))) (JObj [(''id'', JStr ''A'')]) =
     ([ClosePointInTime (JObj [(''body'', JObj [(''id'', JStr ''A'')])])],
      \<lparr> status = JNum (Fin 200), json = JObj [(''ok'', JBool True)] \<rparr>)"
  using close_pit_needs_id [of "JObj []" "example_es (Inr (JObj []))"]
    close_pit_needs_id [of "JObj [(''id'', JStr ''A'')]" "example_es (Inr (JObj []))"]
  by (simp add: own_prop_def example_es_def prod_eq_iff)

subsection \<open>C8: failures\<close>

text \<open>
  C8 as stated (the error is the engine's structured error when present and a generic
  fallback string otherwise) fails: between the two the code returns the message of the
  thrown value. An engine call rejected with a connection error, which has a message and no
  structured body, is answered with that message and not with \<^verbatim>\<open>"Search error"\<close>.
\<close>

theorem exception_message_returned:
  "snd (post_search example_platform (example_es (Inl refused)) (page_request ''A'' [])) =
      \<lparr> status = JNum (Fin 500),
        json = JObj [(''ok'', JBool False), (''error'', JStr ''connect ECONNREFUSED'')] \<rparr> \<and>
   opt_get (opt_get (opt_get refused ''meta'') ''body'') ''error'' = JUndefined \<and>
   JStr ''connect ECONNREFUSED'' \<noteq> JStr ''Search error''"
  by code_simp

text \<open>
  C8 as amended: every value thrown in the search handler, and every rejection of the
  close-PIT call, is answered through the catch block, and the search handler answers
  nothing else but a success. The catch block's status is \<^verbatim>\<open>err.statusCode\<close> when truthy,
  else \<^verbatim>\<open>err.meta.statusCode\<close> when truthy, else 500; its body is \<^verbatim>\<open>{ok: false, error}\<close>
  where \<^verbatim>\<open>error\<close> is \<^verbatim>\<open>err.meta.body.error\<close> when truthy, else \<^verbatim>\<open>err.message\<close> when truthy,
  else the fallback string (\<^verbatim>\<open>"Search error"\<close>, \<^verbatim>\<open>"Close PIT error"\<close>).
\<close>

theorem failures_formatted:
  "(\<forall>calls err. search_try p es rb = (calls, Inl err) \<longrightarrow>
      post_search p es rb = (calls, catch_response ''Search error'' err)) \<and>
   (\<forall>calls r. post_search p es rb = (calls, r) \<and> opt_get (json r) ''ok'' \<noteq> JBool True \<longrightarrow>
      (\<exists>err. search_try p es rb = (calls, Inl err) \<and> r = catch_response ''Search error'' err)) \<and>
   (\<forall>body err. compose_body p (destructure rb) = Inr body \<and> truthy (pit_id (destructure rb)) \<and>
      search es (JObj [(''body'', JObj (paginate (destructure rb) (pit_id (destructure rb))
                                  (keepAlive (destructure rb)) body))]) = Inl err \<longrightarrow>
      snd (post_search p es rb) = catch_response ''Search error'' err) \<and>
   (\<forall>err. truthy (opt_get cb ''id'') \<and>
      closePointInTime es (JObj [(''body'', JObj [(''id'', opt_get cb ''id'')])]) = Inl err \<longrightarrow>
      snd (post_close_pit es cb) = catch_response ''Close PIT error'' err) \<and>
   status (catch_response fb e) =
     (if truthy (opt_get e ''statusCode'') then opt_get e ''statusCode''
      else if truthy (opt_get (opt_get e ''meta'') ''statusCode'')
      then opt_get (opt_get e ''meta'') ''statusCode''
      else JNum (Fin 500)) \<and>
   json (catch_response fb e) =
     JObj [(''ok'', JBool False),
           (''error'',
            if truthy (opt_get (opt_get (opt_get e ''meta'') ''body'') ''error'')
            then opt_get (opt_get (opt_get e ''meta'') ''body'') ''error''
            else if truthy (opt_get e ''message'') then opt_get e ''message''
            else JStr fb)]"
proof (intro conjI allI impI)
  fix calls err
  assume "search_try p es rb = (calls, Inl err)"
  then show "post_search p es rb = (calls, catch_response ''Search error'' err)"
    by (simp add: post_search_def)
next
  fix calls r
  assume "post_search p es rb = (calls, r) \<and> opt_get (json r) ''ok'' \<noteq> JBool True"
  then show "\<exists>err. search_try p es rb = (calls, Inl err) \<and> r = catch_response ''Search error'' err"
    using post_search_failed by blast
next
  fix body err
  assume "compose_body p (destructure rb) = Inr body \<and> truthy (pit_id (destructure rb)) \<and>
      search es (JObj [(''body'', JObj (paginate (destructure rb) (pit_id (destructure rb))
                                  (keepAlive (destructure rb)) body))]) = Inl err"
  then show "snd (post_search p es rb) = catch_response ''Search error'' err"
    using search_try_pit [of rb p body _ es] by (simp add: post_search_response)
next
  fix err
  assume "truthy (opt_get cb ''id'') \<and>
      closePointInTime es (JObj [(''body'', JObj [(''id'', opt_get cb ''id'')])]) = Inl err"
  then show "snd (post_close_pit es cb) = catch_response ''Close PIT error'' err"
    by (simp add: post_close_pit_def Let_def)
qed (simp_all add: catch_response_def js_or_def)

theorem failures_formatted_witness:
  "snd (search_try example_platform (example_es (Inl gone)) (page_request ''A'' [])) = Inl gone \<and>
   snd (post_search example_platform (example_es (Inl gone)) (page_request ''A'' [])) =
     \<lparr> status = JNum (Fin 404),
       json = JObj [(''ok'', JBool False),
                    (''error'', JObj [(''type'', JStr ''search_context_missing_exception'')])] \<rparr> \<and>
   truthy (opt_get (JObj [(''id'', JStr ''A'')]) ''id'') \<and>
   closePointInTime (example_es (Inl gone)) (JObj [(''body'', JObj [(''id'', JStr ''A'')])]) = Inl gone \<and>
   snd (post_close_pit (example_es (Inl gone)) (JObj [(''id'', JStr ''A'')])) =
     \<lparr> status = JNum (Fin 404),
       json = JObj [(''ok'', JBool False),
                    (''error'', JObj [(''type'', JStr ''search_context_missing_exception'')])] \<rparr>"
proof -
  have thrown: "search_try example_platform (example_es (Inl gone)) (page_request ''A'' []) =
      (fst (search_try example_platform (example_es (Inl gone)) (page_request ''A'' [])), Inl gone)"
    by code_simp
  have c: "catch_response fb gone =
     \<lparr> status = JNum (Fin 404),
       json = JObj [(''ok'', JBool False),
                    (''error'', JObj [(''type'', JStr ''search_context_missing_exception'')])] \<rparr>"
    for fb
    by (simp add: catch_response_def gone_def js_or_def own_prop_def)
  have cl: "closePointInTime (example_es (Inl gone)) (JObj [(''body'', JObj [(''id'', JStr ''A'')])])
      = Inl gone"
    by (simp add: example_es_def)
  note th = failures_formatted [of example_platform "example_es (Inl gone)" "page_request ''A'' []"
      "JObj [(''id'', JStr ''A'')]" "''Search error''" gone]
  have "post_search example_platform (example_es (Inl gone)) (page_request ''A'' []) =
      (fst (search_try example_platform (example_es (Inl gone)) (page_request ''A'' [])),
       catch_response ''Search error'' gone)"
    using th thrown by blast
  moreover have "snd (post_close_pit (example_es (Inl gone)) (JObj [(''id'', JStr ''A'')])) =
      catch_response ''Close PIT error'' gone"
    using th cl by (simp add: own_prop_def)
  ultimately show ?thesis
    using thrown cl c by (simp add: own_prop_def prod_eq_iff)
qed

subsection \<open>C9: scalar or list\<close>

text \<open>
  C9 as stated (for every value \<open>v\<close>, \<open>v\<close> and \<open>[v]\<close> give the same filter clauses) fails at
  \<^verbatim>\<open>null\<close>: \<^verbatim>\<open>asArray(null)\<close> is the empty list, so \<^verbatim>\<open>levels: null\<close> adds no clause, while
  \<^verbatim>\<open>levels: [null]\<close> adds a \<^verbatim>\<open>terms\<close> clause.
\<close>

theorem null_is_not_a_one_element_list:
  "filter_clauses (destructure (JObj [(''levels'', JNull)])) =
     Inr [JObj [(''range'', JObj [(''@timestamp'',
              JObj [(''gte'', JStr ''now-24h''), (''lte'', JStr ''now'')])])]] \<and>
   filter_clauses (destructure (JObj [(''levels'', JArr [JNull])])) =
     Inr [JObj [(''range'', JObj [(''@timestamp'',
              JObj [(''gte'', JStr ''now-24h''), (''lte'', JStr ''now'')])])],
          JObj [(''terms'', JObj [(''level'', JArr [JNull])])]]"
  by (simp add: filter_clauses_def destructure_def js_or_def dflt_def own_prop_def get_def
        nullish_def terms_clause_def asArray_def Let_def)

text \<open>
  C9 as amended: for every \<open>v\<close> other than \<^verbatim>\<open>null\<close> and \<^verbatim>\<open>undefined\<close> that is not itself a
  list, \<open>v\<close> and \<open>[v]\<close> normalise to the same list and, given as \<^verbatim>\<open>levels\<close> or as
  \<^verbatim>\<open>services\<close>, compose the same body (so the same filter clauses); normalising a list is
  the identity, and normalising twice is normalising once.
\<close>

theorem scalar_as_one_element_list:
  assumes "\<not> nullish v" and "\<not> isArray v"
  shows "asArray v = asArray (JArr [v]) \<and>
         compose_body p (a\<lparr>levels_in := v\<rparr>) = compose_body p (a\<lparr>levels_in := JArr [v]\<rparr>) \<and>
         compose_body p (a\<lparr>services_in := v\<rparr>) = compose_body p (a\<lparr>services_in := JArr [v]\<rparr>) \<and>
         asArray (JArr xs) = xs \<and>
         asArray (JArr (asArray w)) = asArray w"
  using assms
  by (simp add: asArray_list asArray_scalar compose_body_levels_scalar
        compose_body_services_scalar)

theorem scalar_as_one_element_list_witness:
  "\<not> nullish (JStr ''error'') \<and> \<not> isArray (JStr ''error'') \<and>
   asArray (JStr ''error'') = asArray (JArr [JStr ''error'']) \<and>
   compose_body example_platform ((destructure first_page)\<lparr>levels_in := JStr ''error''\<rparr>) =
     compose_body example_platform ((destructure first_page)\<lparr>levels_in := JArr [JStr ''error'']\<rparr>) \<and>
   compose_body example_platform ((destructure first_page)\<lparr>services_in := JStr ''error''\<rparr>) =
     compose_body example_platform ((destructure first_page)\<lparr>services_in := JArr [JStr ''error'']\<rparr>) \<and>
   asArray (JArr [JStr ''a'', JStr ''b'']) = [JStr ''a'', JStr ''b''] \<and>
   asArray (JArr (asArray (JStr ''a''))) = asArray (JStr ''a'') \<and>
   filter_clauses (destructure (JObj [(''levels'', JStr ''error'')])) =
     Inr [JObj [(''range'', JObj [(''@timestamp'',
              JObj [(''gte'', JStr ''now-24h''), (''lte'', JStr ''now'')])])],
          JObj [(''terms'', JObj [(''level'', JArr [JStr ''error''])])]]"
  using scalar_as_one_element_list [of "JStr ''error''" example_platform "destructure first_page"
      "[JStr ''a'', JStr ''b'']" "JStr ''a''"]
  by (simp add: nullish_def isArray_def filter_clauses_def destructure_def js_or_def dflt_def
        own_prop_def get_def terms_clause_def asArray_def Let_def)

subsection \<open>C10: the rescore stage\<close>

text \<open>
  C10. Whatever the query string and the toggles, the composed body has a rescore stage
  whose query is the constant phrase \<^verbatim>\<open>connection reset\<close> on \<^verbatim>\<open>message\<close> with slop 1 and
  boost 6, window size \<open>min(effective page size, 1000)\<close>, query weight 1 and rescore query
  weight 2; every search call carries that stage unchanged. (A body is composed for every
  request on which none of \<^verbatim>\<open>String(q)\<close>, \<^verbatim>\<open>time.gte\<close> and \<^verbatim>\<open>Number(size)\<close> throws; \<open>sz\<close>
  below is its effective page size.)
\<close>

theorem rescore_is_constant:
  assumes "compose_body p a = Inr body"
  shows "\<exists>sz. body_size p (size_in a) = Inr sz \<and>
    own_prop body ''rescore'' =
      JObj [(''window_size'', JNum (Math_min sz (Fin 1000))),
            (''query'', JObj
               [(''rescore_query'', JObj [(''match_phrase'', JObj [(''message'',
                   JObj [(''query'', JStr ''connection reset''),
                         (''slop'', JNum (Fin 1)),
                         (''boost'', JNum (Fin 6))])])]),
                (''query_weight'', JNum (Fin 1)),
                (''rescore_query_weight'', JNum (Fin 2))])] \<and>
    (\<forall>es rb sent. a = destructure rb \<and> Search sent \<in> set (fst (post_search p es rb)) \<longrightarrow>
       opt_get (opt_get sent ''body'') ''rescore'' = own_prop body ''rescore'')"
proof -
  have sent: "opt_get (opt_get sent ''body'') ''rescore'' = own_prop body ''rescore''"
    if "a = destructure rb" "Search sent \<in> set (fst (post_search p es rb))" for es rb sent
    using that(2)
  proof (rule post_search_sent)
    fix body'
    assume "compose_body p (destructure rb) = Inr body'"
      and "opt_get sent ''body'' = JObj (paginate (destructure rb) (pit_id (destructure rb))
                                  (keepAlive (destructure rb)) body')"
    then show ?thesis using assms that(1) by (simp add: paginate_keeps)
  qed
  obtain sz where sz: "body_size p (size_in a) = Inr sz"
    and r: "own_prop body ''rescore'' = rescore sz"
    using compose_body_size [OF assms] by blast
  have "rescore sz =
      JObj [(''window_size'', JNum (Math_min sz (Fin 1000))),
            (''query'', JObj
               [(''rescore_query'', JObj [(''match_phrase'', JObj [(''message'',
                   JObj [(''query'', JStr ''connection reset''),
                         (''slop'', JNum (Fin 1)),
                         (''boost'', JNum (Fin 6))])])]),
                (''query_weight'', JNum (Fin 1)),
                (''rescore_query_weight'', JNum (Fin 2))])]"
    by (simp add: rescore_def Math_min_commute [of "Fin 1000"])
  then show ?thesis
    using sz r sent by metis
qed

theorem rescore_is_constant_witness:
  "\<exists>body. compose_body example_platform (destructure quiet_request) = Inr body \<and>
     body_size example_platform (size_in (destructure quiet_request)) = Inr (Fin 20) \<and>
     own_prop body ''rescore'' =
      JObj [(''window_size'', JNum (Fin 20)),
            (''query'', JObj
               [(''rescore_query'', JObj [(''match_phrase'', JObj [(''message'',
                   JObj [(''query'', JStr ''connection reset''),
                         (''slop'', JNum (Fin 1)),
                         (''boost'', JNum (Fin 6))])])]),
                (''query_weight'', JNum (Fin 1)),
                (''rescore_query_weight'', JNum (Fin 2))])] \<and>
     map (\<lambda>b. opt_get b ''rescore'')
       (search_bodies (fst (post_search example_platform (example_es (Inr example_resp))
          quiet_request))) = [own_prop body ''rescore'']"
proof -
  have args: "q_in (destructure quiet_request) = JStr ''disk full''"
    "\<not> nullish (time_in (destructure quiet_request))"
    "size_in (destructure quiet_request) = JNum (Fin 20)"
    by (simp_all add: quiet_request_def page_request_def destructure_def js_or_def dflt_def
          own_prop_def Let_def nullish_def)
  obtain body where b: "compose_body example_platform (destructure quiet_request) = Inr body"
    using compose_body_plain [OF args] by blast
  have sz: "body_size example_platform (size_in (destructure quiet_request)) = Inr (Fin 20)"
    by (simp add: args body_size_def num_or_def)
  have p: "truthy (pit_id (destructure quiet_request))"
    by (simp add: quiet_request_def page_request_def destructure_def js_or_def dflt_def
          own_prop_def Let_def pit_id_def)
  obtain sent where s: "fst (post_search example_platform (example_es (Inr example_resp))
      quiet_request) = [Search sent]"
    using search_try_pit [OF p b refl] by (simp add: post_search_calls)
  have m: "Search sent \<in> set (fst (post_search example_platform
      (example_es (Inr example_resp)) quiet_request))"
    using s by simp
  obtain sz' where r:
    "body_size example_platform (size_in (destructure quiet_request)) = Inr sz'"
    "own_prop body ''rescore'' =
      JObj [(''window_size'', JNum (Math_min sz' (Fin 1000))),
            (''query'', JObj
               [(''rescore_query'', JObj [(''match_phrase'', JObj [(''message'',
                   JObj [(''query'', JStr ''connection reset''),
                         (''slop'', JNum (Fin 1)),
                         (''boost'', JNum (Fin 6))])])]),
                (''query_weight'', JNum (Fin 1)),
                (''rescore_query_weight'', JNum (Fin 2))])]"
    "\<forall>es rb sent. destructure quiet_request = destructure rb \<and>
        Search sent \<in> set (fst (post_search example_platform es rb)) \<longrightarrow>
        opt_get (opt_get sent ''body'') ''rescore'' = own_prop body ''rescore''"
    using rescore_is_constant [OF b] by (elim exE conjE) (rule that)
  have e: "sz' = Fin 20"
    using r(1) sz by simp
  have "opt_get (opt_get sent ''body'') ''rescore'' = own_prop body ''rescore''"
    using r(3) m by blast
  then show ?thesis
    using r(2) b sz s unfolding e by simp
qed

end
